theory Spec2Isabelle
  imports Complex_Main "HOL-Library.List_Lexorder" "HOL-Library.Char_ord"
begin

section \<open>Request values\<close>

text \<open>
  A scalar field of a request (a JSON body field expected to hold a number, or the
  \<open>:isbn\<close> path segment, which Express always delivers as a string). Text fields
  (\<open>title\<close>, \<open>authors\<close>, \<open>order\<close>, the \<open>:name\<close> path segment, ...) are
  \<open>string option\<close>, \<open>None\<close> for an absent field. A JavaScript number is a
  \<open>rat option\<close>, \<open>None\<close> for NaN, and \<open>Num r\<close> holds a number as
  parsed from the request. Infinities are not modelled; rounding to binary64 is modelled
  where a route computes with numbers, in the sum of the pagination route.
\<close>

datatype jsval = Undefined | Null | Num rat | Str string

type_synonym number = "rat option"

text \<open>
  Modelled from the spec: \<open>validationFunctions\<close> lives in \<open>core/utilities\<close>,
  which is not among the sources; the spec calls \<open>isStringProvided\<close> and
  \<open>isNumberProvided\<close> pure presence/type predicates. They are parameters of
  every route, together with the two readings of a string as a number that the routes
  rely on: JavaScript's \<open>Number(s)\<close> (also behind unary \<open>+\<close> and the
  relational operators) and the storage engine's cast of a text bind value to a numeric
  column.
\<close>

record env =
  isStringProvided :: "string option \<Rightarrow> bool"
  isNumberProvided :: "jsval \<Rightarrow> bool"
  Number :: "string \<Rightarrow> number"
  pg_numeric :: "string \<Rightarrow> rat option"

fun toNumber :: "env \<Rightarrow> jsval \<Rightarrow> number" where
  "toNumber V Undefined = None"
| "toNumber V Null = Some 0"
| "toNumber V (Num r) = Some r"
| "toNumber V (Str s) = Number V s"

text \<open>The relational operators on numbers: every comparison with NaN is false.\<close>

fun num_lt :: "number \<Rightarrow> number \<Rightarrow> bool" where
  "num_lt (Some x) (Some y) = (x < y)"
| "num_lt _ _ = False"

fun num_le :: "number \<Rightarrow> number \<Rightarrow> bool" where
  "num_le (Some x) (Some y) = (x \<le> y)"
| "num_le _ _ = False"

definition num_gt :: "number \<Rightarrow> number \<Rightarrow> bool" where
  "num_gt a b = num_lt b a"

definition num_ge :: "number \<Rightarrow> number \<Rightarrow> bool" where
  "num_ge a b = num_le b a"


text \<open>\<open>v != null\<close>, the loose inequality.\<close>

definition not_null :: "jsval \<Rightarrow> bool" where
  "not_null v = (v \<noteq> Undefined \<and> v \<noteq> Null)"

section \<open>The wire shape of a book\<close>

record IRatings =
  average :: rat
  count :: rat
  rating_1 :: rat
  rating_2 :: rat
  rating_3 :: rat
  rating_4 :: rat
  rating_5 :: rat

record IUrlIcon =
  large :: string
  small :: string

record IBook =
  isbn13 :: rat
  authors :: "string option"
  publication :: rat
  original_title :: string
  title :: string
  ratings :: IRatings
  icons :: IUrlIcon

section \<open>Storage\<close>

text \<open>
  Modelled from the spec: the schema is not among the sources. \<open>Books\<close> has one row
  per book, keyed by \<open>isbn13\<close>, with the columns the queries name; \<open>Author\<close> holds
  \<open>(author_id, author_name)\<close> with unique names; \<open>books_authors\<close> holds
  \<open>(isbn13, author_id)\<close>, unique per pair. Numeric columns hold rationals, text
  columns strings, and no column is nullable. A result row carries the book columns and
  the aggregated \<open>authors\<close> column, which is NULL (\<open>None\<close>) when the scalar
  subquery of a delete finds no row.
\<close>

record book_row =
  isbn13 :: rat
  title :: string
  original_title :: string
  publication_year :: rat
  rating_avg :: rat
  rating_count :: rat
  rating_1_star :: rat
  rating_2_star :: rat
  rating_3_star :: rat
  rating_4_star :: rat
  rating_5_star :: rat
  image_url :: string
  image_small_url :: string

record row = book_row +
  authors :: "string option"

record database =
  Books :: "book_row list"
  Author :: "(nat \<times> string) list"
  books_authors :: "(rat \<times> nat) list"

text \<open>A failed query: the error object and its optional \<open>detail\<close>.\<close>

record pgerror =
  detail :: "string option"

definition storage_error :: pgerror where
  "storage_error = \<lparr>detail = None\<rparr>"

text \<open>
  A bind value sent for a numeric column or compared with one: \<open>undefined\<close> and
  \<open>null\<close> are sent as NULL, a number as itself, a string is cast by the engine,
  which fails on text that is no number.
\<close>

fun bind_numeric :: "env \<Rightarrow> jsval \<Rightarrow> pgerror + rat option" where
  "bind_numeric V Undefined = Inr None"
| "bind_numeric V Null = Inr None"
| "bind_numeric V (Num r) = Inr (Some r)"
| "bind_numeric V (Str s) =
     (case pg_numeric V s of None \<Rightarrow> Inl storage_error | Some r \<Rightarrow> Inr (Some r))"

text \<open>
  The join \<open>books b JOIN Books_Authors ba ON b.isbn13 = ba.isbn13 JOIN Author a ON
  ba.Author_id = a.Author_id\<close>, restricted to one book: the author names of its joined
  rows, in join order.
\<close>

definition joined_authors :: "database \<Rightarrow> rat \<Rightarrow> string list" where
  "joined_authors d i =
     concat (map (\<lambda>ba. map snd (filter (\<lambda>a. fst a = snd ba) (Author d)))
                 (filter (\<lambda>ba. fst ba = i) (books_authors d)))"

text \<open>\<open>string_agg(x, ', ')\<close> over the rows of one group.\<close>

fun string_agg :: "string list \<Rightarrow> string" where
  "string_agg [] = []"
| "string_agg [x] = x"
| "string_agg (x # y # ys) = x @ '', '' @ string_agg (y # ys)"

text \<open>
  The denormalized view over a selection of \<open>Books\<close>: the inner joins drop a book
  with no joined row, \<open>GROUP BY\<close> over all book columns leaves one row per book, and
  \<open>string_agg(a.Author_name, ', ' ORDER BY a.Author_name)\<close> aggregates its authors.
\<close>

definition view_row :: "database \<Rightarrow> book_row \<Rightarrow> row" where
  "view_row d b =
     book_row.extend b
       (row.fields (Some (string_agg (sort (joined_authors d (book_row.isbn13 b))))))"

definition book_view :: "database \<Rightarrow> book_row list \<Rightarrow> row list" where
  "book_view d bs =
     map (view_row d) (filter (\<lambda>b. joined_authors d (book_row.isbn13 b) \<noteq> []) bs)"

section \<open>Responses and handler chains\<close>

record pagination =
  totalRecords :: number
  limit :: number
  offset :: number
  nextPage :: number

text \<open>
  The bodies the routes send, and the framework's own error page, sent with status 500
  when a handler throws before anything was sent.
\<close>

datatype body =
    Message string
  | Result IBook
  | Results "IBook list"
  | Page "IBook list" pagination
  | ErrorPage

record reply =
  status :: nat
  body :: body

text \<open>The statements issued to storage, in the order the handlers issue them.\<close>

datatype query =
    InsertBook "jsval list" "string option list"
  | UpsertAuthor string
  | LinkAuthor rat nat
  | SelectByIsbn jsval
  | DeleteByIsbn jsval
  | SelectByRating jsval jsval string
  | UpdateRating "jsval list" jsval
  | SelectByTitle "string option"
  | DeleteByTitle "string option"
  | SelectByAuthor "string option"
  | DeleteByAuthor "string option"
  | SelectPage number number
  | CountBooks

text \<open>
  What a request has done so far: the response sent to the client (\<open>None\<close> while
  nothing has been sent), the storage, and the log of the statements issued.
\<close>

record world =
  response :: "reply option"
  db :: database
  queries :: "query list"

definition fresh :: "database \<Rightarrow> world" where
  "fresh d = \<lparr>response = None, db = d, queries = []\<rparr>"

text \<open>
  A statement either completes or throws. \<open>response.status(c).send(b)\<close> on a
  response that has already been sent throws (the headers cannot be set again) and
  leaves the first reply in place.
\<close>

datatype completion = Returned world | Threw world

definition send :: "nat \<Rightarrow> body \<Rightarrow> world \<Rightarrow> completion" where
  "send c b w =
     (case response w of
        None \<Rightarrow> Returned (w\<lparr>response := Some \<lparr>status = c, body = b\<rparr>\<rparr>)
      | Some _ \<Rightarrow> Threw w)"

fun run_all :: "(world \<Rightarrow> completion) list \<Rightarrow> world \<Rightarrow> completion" where
  "run_all [] w = Returned w"
| "run_all (s # ss) w =
     (case s w of Returned w' \<Rightarrow> run_all ss w' | Threw w' \<Rightarrow> Threw w')"

text \<open>
  An exception thrown synchronously in a handler goes to the framework's error handler:
  it answers 500 unless a reply has been sent, and no later handler of the route runs.
\<close>

definition error_handler :: "world \<Rightarrow> world" where
  "error_handler w =
     (case response w of
        None \<Rightarrow> w\<lparr>response := Some \<lparr>status = 500, body = ErrorPage\<rparr>\<rparr>
      | Some _ \<Rightarrow> w)"

text \<open>
  A middleware ends by calling \<open>next()\<close> or by returning without it.
  \<open>calls_next\<close> is a body followed by an unconditional \<open>next()\<close>, \<open>ends\<close> a
  branch that returns after its last statement.
\<close>

datatype flow = Next | Stop

definition calls_next :: "completion \<Rightarrow> flow \<times> world" where
  "calls_next c = (case c of Returned w \<Rightarrow> (Next, w) | Threw w \<Rightarrow> (Stop, error_handler w))"

definition ends :: "completion \<Rightarrow> flow \<times> world" where
  "ends c = (case c of Returned w \<Rightarrow> (Stop, w) | Threw w \<Rightarrow> (Stop, error_handler w))"

definition chain ::
  "(world \<Rightarrow> flow \<times> world) \<Rightarrow> (world \<Rightarrow> world) \<Rightarrow> world \<Rightarrow> world" where
  "chain m h w = (case m w of (Next, w') \<Rightarrow> h w' | (Stop, w') \<Rightarrow> w')"

definition chain2 ::
  "(world \<Rightarrow> flow \<times> world) \<Rightarrow> (world \<Rightarrow> flow \<times> world) \<Rightarrow> world \<Rightarrow> flow \<times> world" where
  "chain2 m1 m2 w = (case m1 w of (Next, w') \<Rightarrow> m2 w' | (Stop, w') \<Rightarrow> (Stop, w'))"

text \<open>
  \<open>pool.query(...).then(f).catch(g)\<close>: \<open>g\<close> receives a failed query and also
  whatever \<open>f\<close> throws (an error without \<open>detail\<close>); what \<open>g\<close> throws is an
  unhandled rejection and changes nothing.
\<close>

definition finish :: "completion \<Rightarrow> world" where
  "finish c = (case c of Returned w \<Rightarrow> w | Threw w \<Rightarrow> w)"

definition then_catch ::
  "(pgerror + 'a) \<Rightarrow> ('a \<Rightarrow> world \<Rightarrow> completion) \<Rightarrow> (pgerror \<Rightarrow> world \<Rightarrow> completion) \<Rightarrow>
   world \<Rightarrow> world" where
  "then_catch r f g w =
     (case r of
        Inl e \<Rightarrow> finish (g e w)
      | Inr x \<Rightarrow> (case f x w of Returned w' \<Rightarrow> w' | Threw w' \<Rightarrow> finish (g storage_error w')))"

definition issue :: "query \<Rightarrow> world \<Rightarrow> world" where
  "issue q w = w\<lparr>queries := queries w @ [q]\<rparr>"

definition server_error :: "world \<Rightarrow> completion" where
  "server_error = send 500 (Message ''server error - contact support'')"

definition endsWith :: "string \<Rightarrow> string \<Rightarrow> bool" where
  "endsWith s t = (length t \<le> length s \<and> drop (length s - length t) s = t)"

text \<open>\<open>error.detail != undefined && error.detail.endsWith('already exists.')\<close>\<close>

definition already_exists :: "pgerror \<Rightarrow> bool" where
  "already_exists e =
     (case detail e of None \<Rightarrow> False | Some s \<Rightarrow> endsWith s ''already exists.'')"

definition toBook :: "row \<Rightarrow> IBook" where
  "toBook r =
     \<lparr>IBook.isbn13 = book_row.isbn13 r,
      IBook.authors = row.authors r,
      publication = publication_year r,
      IBook.original_title = book_row.original_title r,
      IBook.title = book_row.title r,
      ratings = \<lparr>average = rating_avg r, count = rating_count r,
                 rating_1 = rating_1_star r, rating_2 = rating_2_star r,
                 rating_3 = rating_3_star r, rating_4 = rating_4_star r,
                 rating_5 = rating_5_star r\<rparr>,
      icons = \<lparr>large = image_url r, small = image_small_url r\<rparr>\<rparr>"

section \<open>The ISBN path parameter\<close>

text \<open>
  The first handler of \<open>GET\<close> and \<open>DELETE /isbns/:isbn\<close> and of
  \<open>PUT /rating/:isbn\<close>: three checks, each answering 400, and \<open>next()\<close> after
  the \<open>if\<close> chain whatever its outcome.
\<close>

definition isbn_check :: "env \<Rightarrow> jsval \<Rightarrow> world \<Rightarrow> flow \<times> world" where
  "isbn_check V isbn w =
     calls_next
       (if isbn = Null \<or> isbn = Undefined then
          send 400 (Message ''No query parameter in url - please refer to documentation'') w
        else if \<not> isNumberProvided V isbn then
          send 400
            (Message ''Query parameter not of required type - please refer to documentation'') w
        else if num_lt (toNumber V isbn) (Some 0) \<or> num_gt (toNumber V isbn) (Some (10 ^ 13)) then
          send 400 (Message ''ISBN not in range - please refer to documentation'') w
        else Returned w)"

section \<open>Reading and deleting by ISBN\<close>

text \<open>\<open>SELECT ... WHERE b.isbn13 = $1 GROUP BY ...\<close>\<close>

definition select_by_isbn :: "env \<Rightarrow> database \<Rightarrow> jsval \<Rightarrow> pgerror + row list" where
  "select_by_isbn V d p =
     (case bind_numeric V p of
        Inl e \<Rightarrow> Inl e
      | Inr None \<Rightarrow> Inr []
      | Inr (Some i) \<Rightarrow> Inr (book_view d (filter (\<lambda>b. book_row.isbn13 b = i) (Books d))))"

definition get_isbn_then :: "row list \<Rightarrow> world \<Rightarrow> completion" where
  "get_isbn_then rows w =
     (if length rows = 1 then send 200 (Result (toBook (rows ! 0))) w
      else send 404 (Message ''No book with given ISBN'') w)"

definition get_isbn_handler :: "env \<Rightarrow> jsval \<Rightarrow> world \<Rightarrow> world" where
  "get_isbn_handler V isbn w =
     (let w1 = issue (SelectByIsbn isbn) w
      in then_catch (select_by_isbn V (db w1) isbn) get_isbn_then (\<lambda>e. server_error) w1)"

definition get_isbn :: "env \<Rightarrow> jsval \<Rightarrow> world \<Rightarrow> world" where
  "get_isbn V isbn = chain (isbn_check V isbn) (get_isbn_handler V isbn)"

text \<open>
  A scalar subquery such as \<open>(SELECT authors FROM delete_book)\<close>: NULL over no row,
  the value over one row, an error over more than one.
\<close>

fun scalar_subquery :: "'a option list \<Rightarrow> pgerror + 'a option" where
  "scalar_subquery [] = Inr None"
| "scalar_subquery [x] = Inr x"
| "scalar_subquery (x # y # ys) = Inl storage_error"

text \<open>
  Modelled from the spec: the foreign keys of the schema are not among the sources, and
  the spec leaves the cascade to the storage engine. Removing rows of \<open>Books\<close>
  removes the link rows that carry their ISBN.
\<close>

definition remove_books :: "database \<Rightarrow> (book_row \<Rightarrow> bool) \<Rightarrow> database" where
  "remove_books d P =
     d\<lparr>Books := filter (\<lambda>b. \<not> P b) (Books d),
       books_authors :=
         filter (\<lambda>ba. fst ba \<notin> set (map book_row.isbn13 (filter P (Books d))))
           (books_authors d)\<rparr>"

text \<open>
  \<open>WITH delete_book AS (SELECT ... WHERE P GROUP BY ...) DELETE FROM Books WHERE P
  RETURNING *, (SELECT authors FROM delete_book)\<close>: the subquery is evaluated for the
  rows being returned, and a failure leaves the storage as it was.
\<close>

definition delete_returning ::
  "database \<Rightarrow> (book_row \<Rightarrow> bool) \<Rightarrow> (pgerror + row list) \<times> database" where
  "delete_returning d P =
     (let delete_book = book_view d (filter P (Books d));
          deleted = filter P (Books d)
      in if deleted = [] then (Inr [], d)
         else (case scalar_subquery (map row.authors delete_book) of
                 Inl e \<Rightarrow> (Inl e, d)
               | Inr a \<Rightarrow>
                   (Inr (map (\<lambda>b. book_row.extend b (row.fields a)) deleted),
                    remove_books d P)))"

definition delete_by_isbn ::
  "env \<Rightarrow> database \<Rightarrow> jsval \<Rightarrow> (pgerror + row list) \<times> database" where
  "delete_by_isbn V d p =
     (case bind_numeric V p of
        Inl e \<Rightarrow> (Inl e, d)
      | Inr None \<Rightarrow> (Inr [], d)
      | Inr (Some i) \<Rightarrow> delete_returning d (\<lambda>b. book_row.isbn13 b = i))"

definition delete_isbn_handler :: "env \<Rightarrow> jsval \<Rightarrow> world \<Rightarrow> world" where
  "delete_isbn_handler V isbn w =
     (let w1 = issue (DeleteByIsbn isbn) w;
          (r, d) = delete_by_isbn V (db w1) isbn
      in then_catch r get_isbn_then (\<lambda>e. server_error) (w1\<lparr>db := d\<rparr>))"

definition delete_isbn :: "env \<Rightarrow> jsval \<Rightarrow> world \<Rightarrow> world" where
  "delete_isbn V isbn = chain (isbn_check V isbn) (delete_isbn_handler V isbn)"

section \<open>Reading and deleting by title and by author\<close>

definition name_check :: "env \<Rightarrow> string option \<Rightarrow> world \<Rightarrow> flow \<times> world" where
  "name_check V name w =
     (if \<not> isStringProvided V name then ends (send 400 (Message ''No query parameter in url'') w)
      else (Next, w))"

text \<open>\<open>SELECT ... WHERE title = $1 GROUP BY ...\<close>\<close>

definition select_by_title :: "database \<Rightarrow> string option \<Rightarrow> pgerror + row list" where
  "select_by_title d name =
     (case name of
        None \<Rightarrow> Inr []
      | Some n \<Rightarrow> Inr (book_view d (filter (\<lambda>b. book_row.title b = n) (Books d))))"

definition get_title_then :: "row list \<Rightarrow> world \<Rightarrow> completion" where
  "get_title_then rows w =
     (if length rows \<ge> 1 then send 200 (Results (map toBook rows)) w
      else send 404 (Message ''No book with given title'') w)"

definition get_title_handler :: "string option \<Rightarrow> world \<Rightarrow> world" where
  "get_title_handler name w =
     (let w1 = issue (SelectByTitle name) w
      in then_catch (select_by_title (db w1) name) get_title_then (\<lambda>e. server_error) w1)"

definition get_title :: "env \<Rightarrow> string option \<Rightarrow> world \<Rightarrow> world" where
  "get_title V name = chain (name_check V name) (get_title_handler name)"

text \<open>
  \<open>SELECT ... WHERE a.Author_name = $1 GROUP BY ...\<close>: the condition is on the joined
  rows, before they are grouped, so only the rows of that author reach
  \<open>string_agg(a.Author_name, ', ' ORDER BY a.Author_name)\<close>.
\<close>

definition select_by_author :: "database \<Rightarrow> string option \<Rightarrow> pgerror + row list" where
  "select_by_author d name =
     (case name of
        None \<Rightarrow> Inr []
      | Some n \<Rightarrow>
          Inr (map (\<lambda>b. book_row.extend b
                      (row.fields
                         (Some (string_agg
                            (sort (filter (\<lambda>a. a = n) (joined_authors d (book_row.isbn13 b))))))))
                 (filter (\<lambda>b. n \<in> set (joined_authors d (book_row.isbn13 b))) (Books d))))"

definition get_author_then :: "row list \<Rightarrow> world \<Rightarrow> completion" where
  "get_author_then rows w =
     (if length rows \<ge> 1 then send 200 (Results (map toBook rows)) w
      else send 404 (Message ''Author not found'') w)"

definition get_author_handler :: "string option \<Rightarrow> world \<Rightarrow> world" where
  "get_author_handler name w =
     (let w1 = issue (SelectByAuthor name) w
      in then_catch (select_by_author (db w1) name) get_author_then (\<lambda>e. server_error) w1)"

definition get_author :: "env \<Rightarrow> string option \<Rightarrow> world \<Rightarrow> world" where
  "get_author V name = chain (name_check V name) (get_author_handler name)"

definition delete_by_title ::
  "database \<Rightarrow> string option \<Rightarrow> (pgerror + row list) \<times> database" where
  "delete_by_title d name =
     (case name of
        None \<Rightarrow> (Inr [], d)
      | Some n \<Rightarrow> delete_returning d (\<lambda>b. book_row.title b = n))"

definition delete_title_then :: "row list \<Rightarrow> world \<Rightarrow> completion" where
  "delete_title_then rows w =
     (if length rows \<ge> 1 then send 200 (Results (map toBook rows)) w
      else send 404 (Message ''title not found'') w)"

definition delete_title_handler :: "string option \<Rightarrow> world \<Rightarrow> world" where
  "delete_title_handler name w =
     (let w1 = issue (DeleteByTitle name) w;
          (r, d) = delete_by_title (db w1) name
      in then_catch r delete_title_then (\<lambda>e. server_error) (w1\<lparr>db := d\<rparr>))"

definition delete_title :: "env \<Rightarrow> string option \<Rightarrow> world \<Rightarrow> world" where
  "delete_title V name = chain (name_check V name) (delete_title_handler name)"

text \<open>\<open>TRIM(x)\<close>: the spaces at both ends removed.\<close>

definition TRIM :: "string \<Rightarrow> string" where
  "TRIM s = rev (dropWhile (\<lambda>c. c = CHR '' '') (rev (dropWhile (\<lambda>c. c = CHR '' '') s)))"

text \<open>
  \<open>DELETE /author/:name\<close>: \<open>delete_book\<close> holds, for each book linked to an author
  of that name, \<open>string_agg(TRIM(a.Author_Name), ', ')\<close> over all its joined rows,
  with no \<open>ORDER BY\<close>: the names come in join order. The subquery of \<open>RETURNING\<close>
  selects the row of the book being returned.
\<close>

definition delete_by_author ::
  "database \<Rightarrow> string option \<Rightarrow> (pgerror + row list) \<times> database" where
  "delete_by_author d name =
     (case name of
        None \<Rightarrow> (Inr [], d)
      | Some n \<Rightarrow>
          (let P = (\<lambda>b. n \<in> set (joined_authors d (book_row.isbn13 b)))
           in (Inr (map (\<lambda>b. book_row.extend b
                          (row.fields
                             (Some (string_agg (map TRIM (joined_authors d (book_row.isbn13 b)))))))
                        (filter P (Books d))),
               remove_books d P)))"

definition delete_author_then :: "row list \<Rightarrow> world \<Rightarrow> completion" where
  "delete_author_then rows w =
     (if length rows \<ge> 1 then send 200 (Results (map toBook rows)) w
      else send 404 (Message ''Authors not found'') w)"

definition delete_author_handler :: "string option \<Rightarrow> world \<Rightarrow> world" where
  "delete_author_handler name w =
     (let w1 = issue (DeleteByAuthor name) w;
          (r, d) = delete_by_author (db w1) name
      in then_catch r delete_author_then (\<lambda>e. server_error) (w1\<lparr>db := d\<rparr>))"

definition delete_author :: "env \<Rightarrow> string option \<Rightarrow> world \<Rightarrow> world" where
  "delete_author V name = chain (name_check V name) (delete_author_handler name)"

section \<open>Books by rating range\<close>



definition name_exists_or_server_error :: "pgerror \<Rightarrow> world \<Rightarrow> completion" where
  "name_exists_or_server_error e w =
     (if already_exists e then send 400 (Message ''Name exists'') w else server_error w)"



section \<open>Updating the ratings of a book\<close>

text \<open>The \<open>ratings\<close> object of a request body.\<close>

record ratings_body =
  average :: jsval
  count :: jsval
  rating1 :: jsval
  rating2 :: jsval
  rating3 :: jsval
  rating4 :: jsval
  rating5 :: jsval

definition missing_fields :: string where
  "missing_fields = ''Missing fields within the body - please refer to documentation''"

definition count_not_positive :: string where
  "count_not_positive = ''Rating count must be positive - please refer to documenation''"

definition average_not_in_range :: string where
  "average_not_in_range =
     ''Rating average is not in range of 1 to 5 inclusive - please refer to documentation''"

definition check_provided :: "env \<Rightarrow> jsval \<Rightarrow> world \<Rightarrow> completion" where
  "check_provided V x w =
     (if \<not> isNumberProvided V x then send 400 (Message missing_fields) w else Returned w)"

definition check_count :: "env \<Rightarrow> jsval \<Rightarrow> world \<Rightarrow> completion" where
  "check_count V x w =
     (if num_lt (toNumber V x) (Some 0) then send 400 (Message count_not_positive) w
      else Returned w)"

text \<open>
  The second handler of \<open>PUT /rating/:isbn\<close>: a loop over the seven fields, a loop
  over the six counts \<open>toCheck[1..6]\<close>, then the average; only the last \<open>if\<close> has
  \<open>next()\<close> in its \<open>else\<close>.
\<close>

definition rating_validate :: "env \<Rightarrow> ratings_body \<Rightarrow> world \<Rightarrow> flow \<times> world" where
  "rating_validate V r w =
     (let toCheck = [ratings_body.average r, ratings_body.count r, rating1 r, rating2 r,
                     rating3 r, rating4 r, rating5 r]
      in case run_all (map (check_provided V) toCheck @ map (check_count V) (tl toCheck)) w of
           Threw w' \<Rightarrow> (Stop, error_handler w')
         | Returned w' \<Rightarrow>
             (let rating_avg = toCheck ! 0
              in if num_gt (toNumber V rating_avg) (Some 5) \<or> num_lt (toNumber V rating_avg) (Some 1)
                 then ends (send 400 (Message average_not_in_range) w')
                 else (Next, w')))"

text \<open>Binding a list of values to non-nullable numeric columns.\<close>

fun bind_all :: "env \<Rightarrow> jsval list \<Rightarrow> pgerror + rat list" where
  "bind_all V [] = Inr []"
| "bind_all V (v # vs) =
     (case bind_numeric V v of
        Inl e \<Rightarrow> Inl e
      | Inr None \<Rightarrow> Inl storage_error
      | Inr (Some x) \<Rightarrow> (case bind_all V vs of Inl e \<Rightarrow> Inl e | Inr xs \<Rightarrow> Inr (x # xs)))"

definition set_ratings :: "rat list \<Rightarrow> book_row \<Rightarrow> book_row" where
  "set_ratings xs b =
     b\<lparr>rating_avg := xs ! 0, rating_count := xs ! 1, rating_1_star := xs ! 2,
       rating_2_star := xs ! 3, rating_3_star := xs ! 4, rating_4_star := xs ! 5,
       rating_5_star := xs ! 6\<rparr>"

text \<open>
  \<open>UPDATE Books SET rating_avg = $1, ..., rating_5_star = $7 WHERE isbn13 = $8
  RETURNING *\<close>: the returned rows have no \<open>authors\<close> column.
\<close>

definition update_rating ::
  "env \<Rightarrow> database \<Rightarrow> jsval list \<Rightarrow> jsval \<Rightarrow> (pgerror + row list) \<times> database" where
  "update_rating V d vals isbn =
     (case bind_all V vals of
        Inl e \<Rightarrow> (Inl e, d)
      | Inr xs \<Rightarrow>
          (case bind_numeric V isbn of
             Inl e \<Rightarrow> (Inl e, d)
           | Inr None \<Rightarrow> (Inr [], d)
           | Inr (Some i) \<Rightarrow>
               (Inr (map (\<lambda>b. book_row.extend (set_ratings xs b) (row.fields None))
                       (filter (\<lambda>b. book_row.isbn13 b = i) (Books d))),
                d\<lparr>Books := map (\<lambda>b. if book_row.isbn13 b = i then set_ratings xs b else b)
                               (Books d)\<rparr>)))"

definition put_rating_then :: "row list \<Rightarrow> world \<Rightarrow> completion" where
  "put_rating_then rows w =
     (if length rows = 1 then send 201 (Result (toBook (rows ! 0))) w
      else send 404 (Message ''No book with given ISBN'') w)"

definition put_rating_handler :: "env \<Rightarrow> jsval \<Rightarrow> ratings_body \<Rightarrow> world \<Rightarrow> world" where
  "put_rating_handler V isbn r w =
     (let vals = [ratings_body.average r, ratings_body.count r, rating1 r, rating2 r,
                  rating3 r, rating4 r, rating5 r];
          w1 = issue (UpdateRating vals isbn) w;
          (res, d) = update_rating V (db w1) vals isbn
      in then_catch res put_rating_then name_exists_or_server_error (w1\<lparr>db := d\<rparr>))"

definition put_rating :: "env \<Rightarrow> jsval \<Rightarrow> ratings_body \<Rightarrow> world \<Rightarrow> world" where
  "put_rating V isbn r =
     chain (chain2 (isbn_check V isbn) (rating_validate V r)) (put_rating_handler V isbn r)"

section \<open>Adding a book\<close>

record icons_body =
  large :: "string option"
  small :: "string option"

record entry =
  isbn13 :: jsval
  authors :: "string option"
  publication :: jsval
  original_title :: "string option"
  title :: "string option"
  ratings :: "ratings_body option"
  icons :: "icons_body option"

definition verifyElement :: "bool \<Rightarrow> string \<Rightarrow> world \<Rightarrow> completion" where
  "verifyElement isValid name w =
     (if \<not> isValid then
        send 400 (Message (''Invalid or missing '' @ name @ '' - please refer to documentation'')) w
      else Returned w)"

definition rating_ok :: "env \<Rightarrow> ratings_body option \<Rightarrow> bool" where
  "rating_ok V rs =
     (case rs of
        None \<Rightarrow> False
      | Some r \<Rightarrow>
          not_null (ratings_body.average r)
          \<and> num_ge (toNumber V (ratings_body.average r)) (Some 1)
          \<and> num_le (toNumber V (ratings_body.average r)) (Some 5)
          \<and> not_null (ratings_body.count r) \<and> num_ge (toNumber V (ratings_body.count r)) (Some 0)
          \<and> not_null (rating1 r) \<and> num_ge (toNumber V (rating1 r)) (Some 0)
          \<and> not_null (rating2 r) \<and> num_ge (toNumber V (rating2 r)) (Some 0)
          \<and> not_null (rating3 r) \<and> num_ge (toNumber V (rating3 r)) (Some 0)
          \<and> not_null (rating4 r) \<and> num_ge (toNumber V (rating4 r)) (Some 0)
          \<and> not_null (rating5 r) \<and> num_ge (toNumber V (rating5 r)) (Some 0))"

definition icon_ok :: "env \<Rightarrow> icons_body option \<Rightarrow> (icons_body \<Rightarrow> string option) \<Rightarrow> bool" where
  "icon_ok V ic field =
     (case ic of
        None \<Rightarrow> False
      | Some i \<Rightarrow> field i \<noteq> None \<and> isStringProvided V (field i))"

text \<open>
  The first handler of \<open>POST /\<close>: eight calls of \<open>verifyElement\<close>, none of which
  returns from the handler, and then \<open>next()\<close>.
\<close>

definition post_book_check :: "env \<Rightarrow> entry \<Rightarrow> world \<Rightarrow> flow \<times> world" where
  "post_book_check V e w =
     calls_next
       (run_all
          [verifyElement
             (isNumberProvided V (entry.isbn13 e)
                \<and> num_ge (toNumber V (entry.isbn13 e)) (Some 0)) ''ISBN'',
           verifyElement (isStringProvided V (entry.authors e)) ''Authors'',
           verifyElement
             (isNumberProvided V (entry.publication e)
                \<and> num_ge (toNumber V (entry.publication e)) (Some 0)) ''Publication'',
           verifyElement (isStringProvided V (entry.original_title e)) ''Original Title'',
           verifyElement (isStringProvided V (entry.title e)) ''Title'',
           verifyElement (rating_ok V (entry.ratings e)) ''Rating'',
           verifyElement (icon_ok V (entry.icons e) icons_body.large) ''Image Url'',
           verifyElement (icon_ok V (entry.icons e) icons_body.small) ''Image Small Url'']
          w)"

text \<open>\<open>s.split(", ")\<close>\<close>

fun split_acc :: "string \<Rightarrow> string \<Rightarrow> string list" where
  "split_acc acc [] = [rev acc]"
| "split_acc acc [c] = [rev (c # acc)]"
| "split_acc acc (c # d # cs) =
     (if c = CHR '','' \<and> d = CHR '' '' then rev acc # split_acc [] cs
      else split_acc (c # acc) (d # cs))"

definition split :: "string \<Rightarrow> string list" where
  "split s = split_acc [] s"

text \<open>
  \<open>INSERT INTO Books (...) VALUES ($1, ..., $13) RETURNING *\<close>: nine numeric and four
  text values; a second row with the same \<open>isbn13\<close> violates the key, and the
  error's detail says so.
\<close>

definition insert_book ::
  "env \<Rightarrow> database \<Rightarrow> jsval list \<Rightarrow> string option list \<Rightarrow> (pgerror + row list) \<times> database" where
  "insert_book V d nums texts =
     (case bind_all V nums of
        Inl e \<Rightarrow> (Inl e, d)
      | Inr xs \<Rightarrow>
          (case (xs, texts) of
             ([i, py, avg, cnt, r1, r2, r3, r4, r5], [Some ot, Some t, Some url, Some small_url]) \<Rightarrow>
               (if i \<in> set (map book_row.isbn13 (Books d)) then
                  (Inl \<lparr>detail = Some ''Key (isbn13) already exists.''\<rparr>, d)
                else
                  (let b = \<lparr>book_row.isbn13 = i, book_row.title = t,
                            book_row.original_title = ot, publication_year = py,
                            rating_avg = avg, rating_count = cnt,
                            rating_1_star = r1, rating_2_star = r2, rating_3_star = r3,
                            rating_4_star = r4, rating_5_star = r5,
                            image_url = url, image_small_url = small_url\<rparr>
                   in (Inr [book_row.extend b (row.fields None)], d\<lparr>Books := Books d @ [b]\<rparr>)))
           | _ \<Rightarrow> (Inl storage_error, d)))"

text \<open>
  The second handler of \<open>POST /\<close>, up to its reply. Reading a property of an absent
  \<open>authors\<close>, \<open>ratings\<close> or \<open>icons\<close> throws before the query is issued. After the
  book row is stored, one \<open>INSERT INTO Author\<close> is issued per author name, and 201 is
  sent without waiting for any of them.
\<close>

definition book_exists_or_server_error :: "pgerror \<Rightarrow> world \<Rightarrow> completion" where
  "book_exists_or_server_error e w =
     (if already_exists e then send 400 (Message ''Book exists'') w else server_error w)"

definition post_book_then :: "string list \<Rightarrow> row list \<Rightarrow> world \<Rightarrow> completion" where
  "post_book_then names rows w =
     send 201 (Message ''Book successfully added.'')
       (fold (\<lambda>author. issue (UpsertAuthor author)) names w)"

definition post_book_handler :: "env \<Rightarrow> entry \<Rightarrow> world \<Rightarrow> world" where
  "post_book_handler V e w =
     (case (entry.authors e, entry.ratings e, entry.icons e) of
        (Some a, Some r, Some i) \<Rightarrow>
          (let authors = split a;
               nums = [entry.isbn13 e, entry.publication e, ratings_body.average r,
                       ratings_body.count r, rating1 r, rating2 r, rating3 r, rating4 r,
                       rating5 r];
               texts = [entry.original_title e, entry.title e, icons_body.large i,
                        icons_body.small i];
               w1 = issue (InsertBook nums texts) w;
               (res, d) = insert_book V (db w1) nums texts
           in then_catch res (post_book_then authors) book_exists_or_server_error (w1\<lparr>db := d\<rparr>))
      | _ \<Rightarrow> error_handler w)"

definition post_book :: "env \<Rightarrow> entry \<Rightarrow> world \<Rightarrow> world" where
  "post_book V e = chain (post_book_check V e) (post_book_handler V e)"

text \<open>
  What one author's queries do when they complete, after the reply:
  \<open>INSERT INTO Author ... ON CONFLICT (author_name) DO UPDATE ... RETURNING author_id\<close>
  and then \<open>INSERT INTO books_authors ... ON CONFLICT (isbn13, author_id) DO NOTHING\<close>.
\<close>

definition upsert_author :: "database \<Rightarrow> string \<Rightarrow> nat \<times> database" where
  "upsert_author d name =
     (case filter (\<lambda>a. snd a = name) (Author d) of
        a # as \<Rightarrow> (fst a, d)
      | [] \<Rightarrow>
          (let aid = Suc (fold max (map fst (Author d)) 0)
           in (aid, d\<lparr>Author := Author d @ [(aid, name)]\<rparr>)))"

definition link_author :: "database \<Rightarrow> rat \<Rightarrow> nat \<Rightarrow> database" where
  "link_author d i aid =
     (if (i, aid) \<in> set (books_authors d) then d
      else d\<lparr>books_authors := books_authors d @ [(i, aid)]\<rparr>)"

definition author_insert :: "rat \<Rightarrow> string \<Rightarrow> world \<Rightarrow> world" where
  "author_insert i author w =
     (let (aid, d) = upsert_author (db w) author;
          w1 = issue (LinkAuthor i aid) (w\<lparr>db := d\<rparr>)
      in w1\<lparr>db := link_author d i aid\<rparr>)"

section \<open>Offset pagination\<close>

text \<open>
  Arithmetic on numbers is binary64 arithmetic: the result of \<open>a + b\<close> is the exact
  sum rounded to the nearest binary64 number, ties to the even significand. A whole
  number of magnitude up to \<open>2^53\<close> is a binary64 number. Any other \<open>x\<close> lies in
  one binade \<open>2^e \<le> |x| < 2^(e+1)\<close> and is rounded to a multiple of \<open>2^(e-52)\<close>.
  The exponent range is taken as unbounded (no overflow to infinity, no subnormal
  numbers): the sums of this route stay below \<open>2^64\<close>.
\<close>

function bit_length :: "int \<Rightarrow> int" where
  "bit_length p = (if p \<le> 0 then 0 else 1 + bit_length (p div 2))"
  by auto
termination
  by (relation "measure nat") auto

definition pow2 :: "int \<Rightarrow> rat" where
  "pow2 e = (if 0 \<le> e then 2 ^ nat e else 1 / 2 ^ nat (- e))"

definition round_half_even :: "rat \<Rightarrow> int" where
  "round_half_even x =
     (let f = \<lfloor>x\<rfloor>; r = x - of_int f
      in if r < 1 / 2 then f else if 1 / 2 < r then f + 1 else if even f then f else f + 1)"

definition binary64 :: "rat \<Rightarrow> rat" where
  "binary64 x =
     (if of_int \<lfloor>x\<rfloor> = x \<and> \<bar>x\<bar> \<le> 2 ^ 53 then x
      else
        (let a = \<bar>x\<bar>;
             e = (if 1 \<le> a then bit_length \<lfloor>a\<rfloor> - 1 else - bit_length (\<lceil>1 / a\<rceil> - 1));
             m = round_half_even (a * pow2 (52 - e))
         in sgn x * of_int m * pow2 (e - 52)))"

fun num_add :: "number \<Rightarrow> number \<Rightarrow> number" where
  "num_add (Some x) (Some y) = Some (binary64 (x + y))"
| "num_add _ _ = None"

text \<open>
  The storage engine and its driver decide two things that the route leaves open; they
  are parameters of the route. \<open>group_order\<close> is the order in which the engine returns
  the groups of a query that has no \<open>ORDER BY\<close>. \<open>sent_bigint\<close> is the whole number
  the engine reads for a \<open>LIMIT\<close> or \<open>OFFSET\<close> value between \<open>2^53\<close> and
  \<open>2^63\<close>: the driver sends a number as its shortest decimal text, which above
  \<open>2^53\<close> need not spell the number exactly.
\<close>

record engine =
  group_order :: "row list \<Rightarrow> row list"
  sent_bigint :: "rat \<Rightarrow> nat"

text \<open>
  \<open>LIMIT $1 OFFSET $2\<close> bind as \<open>bigint\<close>: NaN, a number with a fraction, a
  negative number and a number from \<open>2^63\<close> on make the query fail.
\<close>

definition bind_bigint :: "engine \<Rightarrow> number \<Rightarrow> pgerror + nat" where
  "bind_bigint E n =
     (case n of
        None \<Rightarrow> Inl storage_error
      | Some x \<Rightarrow>
          if of_int \<lfloor>x\<rfloor> \<noteq> x \<or> x < 0 \<or> 2 ^ 63 \<le> x then Inl storage_error
          else if x \<le> 2 ^ 53 then Inr (nat \<lfloor>x\<rfloor>)
          else Inr (sent_bigint E x))"

text \<open>
  \<open>SELECT ... GROUP BY ... LIMIT $1 OFFSET $2\<close>: a page of the groups, in the order
  the engine returns them.
\<close>

definition select_page :: "engine \<Rightarrow> database \<Rightarrow> number \<Rightarrow> number \<Rightarrow> pgerror + row list" where
  "select_page E d l off =
     (case bind_bigint E l of
        Inl e \<Rightarrow> Inl e
      | Inr n \<Rightarrow>
          (case bind_bigint E off of
             Inl e \<Rightarrow> Inl e
           | Inr k \<Rightarrow> Inr (take n (drop k (group_order E (book_view d (Books d)))))))"

text \<open>
  \<open>SELECT count(*) AS exact_count FROM Books\<close>, read with \<open>parseInt\<close>, which
  yields a binary64 number.
\<close>

definition count_books :: "database \<Rightarrow> number" where
  "count_books d = Some (binary64 (of_nat (length (Books d))))"

definition limit_of :: "env \<Rightarrow> jsval \<Rightarrow> number" where
  "limit_of V v =
     (if isNumberProvided V v \<and> num_gt (toNumber V v) (Some 0) then toNumber V v else Some 16)"

definition offset_of :: "env \<Rightarrow> jsval \<Rightarrow> number" where
  "offset_of V v =
     (if isNumberProvided V v \<and> num_ge (toNumber V v) (Some 0) then toNumber V v else Some 0)"

text \<open>
  The handler awaits both queries outside any \<open>try\<close>: when the first one fails
  nothing is sent.
\<close>

definition pagination_offset ::
  "env \<Rightarrow> engine \<Rightarrow> jsval \<Rightarrow> jsval \<Rightarrow> world \<Rightarrow> world" where
  "pagination_offset V E rawLimit rawOffset w =
     (let limit = limit_of V rawLimit;
          offset = offset_of V rawOffset;
          w1 = issue (SelectPage limit offset) w
      in case select_page E (db w1) limit offset of
           Inl e \<Rightarrow> w1
         | Inr rows \<Rightarrow>
             (let w2 = issue CountBooks w1;
                  count = count_books (db w2)
              in finish (send 200
                   (Page (map toBook rows)
                      \<lparr>totalRecords = count, limit = limit, offset = offset,
                       nextPage = num_add limit offset\<rparr>) w2)))"

section \<open>Sample helpers and data\<close>

text \<open>
  An instance of the helpers for running the routes on concrete requests: a string is
  provided when it is not empty, a number when it is a JSON number or a string holding a
  signed decimal integer, and both conversions read such integers.
\<close>

definition digit :: "char \<Rightarrow> nat option" where
  "digit c = map_of (zip ''0123456789'' [0, 1, 2, 3, 4, 5, 6, 7, 8, 9]) c"

fun digits :: "nat \<Rightarrow> string \<Rightarrow> nat option" where
  "digits acc [] = Some acc"
| "digits acc (c # cs) =
     (case digit c of None \<Rightarrow> None | Some k \<Rightarrow> digits (10 * acc + k) cs)"

definition decimal :: "string \<Rightarrow> rat option" where
  "decimal s =
     (case s of
        [] \<Rightarrow> None
      | c # cs \<Rightarrow>
          if c = CHR ''-'' then
            (if cs = [] then None else map_option (\<lambda>n. - of_nat n) (digits 0 cs))
          else map_option of_nat (digits 0 s))"

definition sample_env :: env where
  "sample_env =
     \<lparr>isStringProvided = (\<lambda>s. case s of Some (c # cs) \<Rightarrow> True | _ \<Rightarrow> False),
      isNumberProvided =
        (\<lambda>v. case v of Num r \<Rightarrow> True | Str s \<Rightarrow> decimal s \<noteq> None | _ \<Rightarrow> False),
      Number = decimal,
      pg_numeric = decimal\<rparr>"

text \<open>
  An instance of the engine for the sample data: the groups come in ISBN order, and the
  samples send no \<open>LIMIT\<close> or \<open>OFFSET\<close> above \<open>2^53\<close>.
\<close>

definition sample_engine :: engine where
  "sample_engine =
     \<lparr>group_order = sort_key book_row.isbn13, sent_bigint = (\<lambda>x. nat \<lfloor>x\<rfloor>)\<rparr>"

definition empty_db :: database where
  "empty_db = \<lparr>Books = [], Author = [], books_authors = []\<rparr>"

definition sample_book :: "rat \<Rightarrow> string \<Rightarrow> rat \<Rightarrow> book_row" where
  "sample_book i t avg =
     \<lparr>book_row.isbn13 = i, book_row.title = t, book_row.original_title = t,
      publication_year = 1965, rating_avg = avg, rating_count = 10,
      rating_1_star = 0, rating_2_star = 0, rating_3_star = 0, rating_4_star = 10,
      rating_5_star = 0, image_url = ''l.png'', image_small_url = ''s.png''\<rparr>"

definition sample_ratings :: "rat \<Rightarrow> rat \<Rightarrow> ratings_body" where
  "sample_ratings avg cnt =
     \<lparr>ratings_body.average = Num avg, ratings_body.count = Num cnt, rating1 = Num 0,
      rating2 = Num 0, rating3 = Num 0, rating4 = Num 0, rating5 = Num 100\<rparr>"

definition sample_entry :: "rat \<Rightarrow> entry" where
  "sample_entry i =
     \<lparr>entry.isbn13 = Num i, entry.authors = Some ''Zed, Amy'', entry.publication = Num 1965,
      entry.original_title = Some ''Dune'', entry.title = Some ''Dune'',
      entry.ratings = Some (sample_ratings 5 100),
      entry.icons = Some \<lparr>icons_body.large = Some ''l.png'', icons_body.small = Some ''s.png''\<rparr>\<rparr>"

definition dune_db :: database where
  "dune_db =
     \<lparr>Books = [sample_book 1 ''Dune'' 4, sample_book 2 ''Dune'' 3, sample_book 3 ''Emma'' 5],
      Author = [(1, ''Zed''), (2, ''Amy'')],
      books_authors = [(1, 1), (1, 2), (2, 2)]\<rparr>"

definition dup_db :: database where
  "dup_db =
     \<lparr>Books = [sample_book 7 ''Dune'' 4, sample_book 7 ''Emma'' 5],
      Author = [(1, ''Amy'')],
      books_authors = [(7, 1)]\<rparr>"

definition edge_db :: database where
  "edge_db =
     \<lparr>Books = [sample_book 10000000000000 ''Dune'' 4, sample_book (- 5) ''Emma'' 5],
      Author = [(1, ''Amy'')],
      books_authors = [(10000000000000, 1), (- 5, 1)]\<rparr>"

section \<open>Properties\<close>

subsection \<open>Evaluating the routes on the sample data\<close>

lemmas route_defs = chain_def chain2_def calls_next_def ends_def finish_def then_catch_def
  issue_def send_def server_error_def error_handler_def fresh_def Let_def

lemmas sample_defs = sample_env_def decimal_def digit_def sample_book_def

lemma dune_books: "Books dune_db = [sample_book 1 ''Dune'' 4, sample_book 2 ''Dune'' 3, sample_book 3 ''Emma'' 5]"
  by (simp add: dune_db_def)

lemma dune_authors:
  "joined_authors dune_db 1 = [''Zed'', ''Amy'']"
  "joined_authors dune_db 2 = [''Amy'']"
  "joined_authors dune_db 3 = []"
  by (simp_all add: joined_authors_def dune_db_def)

lemma sample_book_sel [simp]:
  "book_row.isbn13 (sample_book i t a) = i"
  "book_row.title (sample_book i t a) = t"
  "rating_avg (sample_book i t a) = a"
  by (simp_all add: sample_book_def)

lemma edge_books:
  "Books edge_db = [sample_book 10000000000000 ''Dune'' 4, sample_book (- 5) ''Emma'' 5]"
  by (simp add: edge_db_def)

lemma edge_authors:
  "joined_authors edge_db 10000000000000 = [''Amy'']"
  "joined_authors edge_db (- 5) = [''Amy'']"
  by (simp_all add: joined_authors_def edge_db_def)

lemma edge_remove:
  "remove_books edge_db (\<lambda>b. book_row.isbn13 b = - 5) =
     \<lparr>Books = [sample_book 10000000000000 ''Dune'' 4], Author = [(1, ''Amy'')],
      books_authors = [(10000000000000, 1)]\<rparr>"
  by (simp add: remove_books_def edge_db_def)

lemma sample_numbers:
  "decimal ''10000000000000'' = Some 10000000000000"
  "decimal ''-5'' = Some (- 5)"
  by (simp_all add: decimal_def digit_def)

lemma post_sample_entry:
  "post_book sample_env (sample_entry 7) (fresh empty_db) =
     \<lparr>response = Some \<lparr>status = 201, body = Message ''Book successfully added.''\<rparr>,
      db = \<lparr>Books = [\<lparr>book_row.isbn13 = 7, title = ''Dune'', original_title = ''Dune'',
                      publication_year = 1965, rating_avg = 5, rating_count = 100,
                      rating_1_star = 0, rating_2_star = 0, rating_3_star = 0,
                      rating_4_star = 0, rating_5_star = 100, image_url = ''l.png'',
                      image_small_url = ''s.png''\<rparr>],
             Author = [], books_authors = []\<rparr>,
      queries = [InsertBook [Num 7, Num 1965, Num 5, Num 100, Num 0, Num 0, Num 0, Num 0, Num 100]
                   [Some ''Dune'', Some ''Dune'', Some ''l.png'', Some ''s.png''],
                 UpsertAuthor ''Zed'', UpsertAuthor ''Amy'']\<rparr>"
  by (simp add: post_book_def post_book_check_def post_book_handler_def post_book_then_def
      verifyElement_def rating_ok_def icon_ok_def not_null_def num_ge_def insert_book_def
      split_def sample_entry_def sample_ratings_def empty_db_def route_defs sample_defs)

subsection \<open>Reading by ISBN\<close>

lemma isbn_check_silent:
  "response (snd (isbn_check V isbn w)) = None \<Longrightarrow> isbn_check V isbn w = (Next, w)"
  by (auto simp: isbn_check_def calls_next_def send_def error_handler_def
      split: if_splits option.splits)

text \<open>
  C2, as the code has it. When the ISBN passes the checks of the route, exactly one
  matched row is returned as the book with status 200, a failed query is answered with
  500 and the message "server error - contact support", and any other number of matched
  rows, none or more than one, is answered with 404 "No book with given ISBN".
\<close>

theorem by_isbn_row_count_outcomes:
  assumes "response (snd (isbn_check V isbn w)) = None"
  shows "(select_by_isbn V (db w) isbn = Inr [r] \<longrightarrow>
            response (get_isbn V isbn w) = Some \<lparr>status = 200, body = Result (toBook r)\<rparr>)
       \<and> (select_by_isbn V (db w) isbn = Inr rows \<and> length rows \<noteq> 1 \<longrightarrow>
            response (get_isbn V isbn w) =
              Some \<lparr>status = 404, body = Message ''No book with given ISBN''\<rparr>)
       \<and> (select_by_isbn V (db w) isbn = Inl e \<longrightarrow>
            response (get_isbn V isbn w) =
              Some \<lparr>status = 500, body = Message ''server error - contact support''\<rparr>)"
proof -
  have n: "isbn_check V isbn w = (Next, w)"
    using assms by (rule isbn_check_silent)
  then have r: "response w = None"
    using assms by simp
  show ?thesis
    using n r
    by (simp add: get_isbn_def get_isbn_handler_def get_isbn_then_def chain_def then_catch_def
        issue_def send_def server_error_def finish_def Let_def)
qed

theorem by_isbn_row_count_outcomes_witness:
  "response (snd (isbn_check sample_env (Str ''2'') (fresh dune_db))) = None
   \<and> select_by_isbn sample_env dune_db (Str ''2'') = Inr [view_row dune_db (sample_book 2 ''Dune'' 3)]
   \<and> response (get_isbn sample_env (Str ''2'') (fresh dune_db)) =
       Some \<lparr>status = 200, body = Result (toBook (view_row dune_db (sample_book 2 ''Dune'' 3)))\<rparr>
   \<and> select_by_isbn sample_env dune_db (Str ''3'') = Inr []
   \<and> response (get_isbn sample_env (Str ''3'') (fresh dune_db)) =
       Some \<lparr>status = 404, body = Message ''No book with given ISBN''\<rparr>"
proof -
  have c2: "response (snd (isbn_check sample_env (Str ''2'') (fresh dune_db))) = None"
    by (simp add: isbn_check_def route_defs sample_defs num_gt_def)
  have c3: "response (snd (isbn_check sample_env (Str ''3'') (fresh dune_db))) = None"
    by (simp add: isbn_check_def route_defs sample_defs num_gt_def)
  have s2: "select_by_isbn sample_env (db (fresh dune_db)) (Str ''2'') =
              Inr [view_row dune_db (sample_book 2 ''Dune'' 3)]"
    by (simp add: select_by_isbn_def book_view_def joined_authors_def dune_db_def fresh_def
        sample_defs)
  have s3: "select_by_isbn sample_env (db (fresh dune_db)) (Str ''3'') = Inr []"
    by (simp add: select_by_isbn_def book_view_def joined_authors_def dune_db_def fresh_def
        sample_defs)
  show ?thesis
    using by_isbn_row_count_outcomes [OF c2, of "view_row dune_db (sample_book 2 ''Dune'' 3)"]
      by_isbn_row_count_outcomes [OF c3, of _ "[]"] c2 s2 s3
    by (simp add: fresh_def)
qed

text \<open>
  C2 as stated fails: over a storage in which two rows carry the ISBN 7, the query of the
  route matches two rows and the answer is 404, not a server error.
\<close>

theorem by_isbn_many_rows_counterexample:
  "select_by_isbn sample_env dup_db (Str ''7'') =
     Inr [view_row dup_db (sample_book 7 ''Dune'' 4), view_row dup_db (sample_book 7 ''Emma'' 5)]
   \<and> response (get_isbn sample_env (Str ''7'') (fresh dup_db)) =
       Some \<lparr>status = 404, body = Message ''No book with given ISBN''\<rparr>"
  by (simp add: get_isbn_def get_isbn_handler_def get_isbn_then_def isbn_check_def
      select_by_isbn_def book_view_def joined_authors_def dup_db_def route_defs sample_defs
      num_gt_def)

lemma no_links_no_view:
  assumes "i \<notin> fst ` set (books_authors d)"
  shows "book_view d (filter (\<lambda>b. book_row.isbn13 b = i) (Books d)) = []"
proof -
  have "filter (\<lambda>ba. fst ba = i) (books_authors d) = []"
    using assms by (auto simp: filter_empty_conv)
  then have "joined_authors d i = []"
    by (simp add: joined_authors_def)
  then show ?thesis
    by (simp add: book_view_def filter_empty_conv)
qed

text \<open>
  C10, as the code has it. A book whose row is in \<open>Books\<close> while no row of
  \<open>books_authors\<close> carries its ISBN is answered with 404 "No book with given ISBN"
  by the by-ISBN read when its ISBN passes the checks of that route (a number from 0 to
  \<open>10^13\<close>): the inner joins leave no row of it. The witness reads the book that the
  insert route has just answered 201 for, before any of its author queries has
  completed.
\<close>

theorem book_without_links_not_found:
  assumes "response (snd (isbn_check V isbn w)) = None"
    and "bind_numeric V isbn = Inr (Some i)"
    and "b \<in> set (Books (db w))" and "book_row.isbn13 b = i"
    and "i \<notin> fst ` set (books_authors (db w))"
  shows "response (get_isbn V isbn w) =
           Some \<lparr>status = 404, body = Message ''No book with given ISBN''\<rparr>"
proof -
  have n: "isbn_check V isbn w = (Next, w)"
    using assms(1) by (rule isbn_check_silent)
  then have r: "response w = None"
    using assms(1) by simp
  have "select_by_isbn V (db w) isbn = Inr []"
    using assms(2) no_links_no_view [OF assms(5)] by (simp add: select_by_isbn_def)
  then show ?thesis
    using n r
    by (simp add: get_isbn_def get_isbn_handler_def get_isbn_then_def chain_def then_catch_def
        issue_def send_def Let_def)
qed

theorem book_without_links_not_found_witness:
  "response (post_book sample_env (sample_entry 7) (fresh empty_db)) =
     Some \<lparr>status = 201, body = Message ''Book successfully added.''\<rparr>
   \<and> sample_book 7 ''Dune'' 5 \<lparr>rating_count := 100, rating_4_star := 0, rating_5_star := 100\<rparr>
       \<in> set (Books (db (post_book sample_env (sample_entry 7) (fresh empty_db))))
   \<and> books_authors (db (post_book sample_env (sample_entry 7) (fresh empty_db))) = []
   \<and> response (get_isbn sample_env (Str ''7'')
        (fresh (db (post_book sample_env (sample_entry 7) (fresh empty_db))))) =
       Some \<lparr>status = 404, body = Message ''No book with given ISBN''\<rparr>"
proof -
  let ?d = "db (post_book sample_env (sample_entry 7) (fresh empty_db))"
  let ?b = "sample_book 7 ''Dune'' 5 \<lparr>rating_count := 100, rating_4_star := 0, rating_5_star := 100\<rparr>"
  have c: "response (snd (isbn_check sample_env (Str ''7'') (fresh ?d))) = None"
    by (simp add: isbn_check_def route_defs sample_defs num_gt_def)
  have b: "bind_numeric sample_env (Str ''7'') = Inr (Some 7)"
    by (simp add: sample_defs)
  have m: "?b \<in> set (Books (db (fresh ?d)))"
    unfolding post_sample_entry by (simp add: fresh_def sample_book_def)
  have i: "book_row.isbn13 ?b = 7"
    by (simp add: sample_book_def)
  have l: "7 \<notin> fst ` set (books_authors (db (fresh ?d)))"
    unfolding post_sample_entry by (simp add: fresh_def)
  show ?thesis
    using book_without_links_not_found [OF c b m i l] m
    unfolding post_sample_entry by (simp add: fresh_def)
qed

text \<open>
  C10 as stated fails: the insert route accepts the ISBN \<open>2 * 10^13\<close> (it checks
  only \<open>isbn13 >= 0\<close>) and answers 201; the book is stored with no link row, and the
  by-ISBN read of it is answered with 400 "ISBN not in range", not with 404.
\<close>

theorem unlinked_book_out_of_range_counterexample:
  "response (post_book sample_env (sample_entry 20000000000000) (fresh empty_db)) =
     Some \<lparr>status = 201, body = Message ''Book successfully added.''\<rparr>
   \<and> map book_row.isbn13 (Books (db (post_book sample_env (sample_entry 20000000000000)
        (fresh empty_db)))) = [20000000000000]
   \<and> books_authors (db (post_book sample_env (sample_entry 20000000000000) (fresh empty_db))) = []
   \<and> response (get_isbn sample_env (Str ''20000000000000'')
        (fresh (db (post_book sample_env (sample_entry 20000000000000) (fresh empty_db))))) =
       Some \<lparr>status = 400, body = Message ''ISBN not in range - please refer to documentation''\<rparr>"
proof -
  have p: "post_book sample_env (sample_entry 20000000000000) (fresh empty_db) =
     \<lparr>response = Some \<lparr>status = 201, body = Message ''Book successfully added.''\<rparr>,
      db = \<lparr>Books = [sample_book 20000000000000 ''Dune'' 5
                       \<lparr>rating_count := 100, rating_4_star := 0, rating_5_star := 100\<rparr>],
             Author = [], books_authors = []\<rparr>,
      queries = [InsertBook [Num 20000000000000, Num 1965, Num 5, Num 100, Num 0, Num 0, Num 0,
                             Num 0, Num 100]
                   [Some ''Dune'', Some ''Dune'', Some ''l.png'', Some ''s.png''],
                 UpsertAuthor ''Zed'', UpsertAuthor ''Amy'']\<rparr>"
    by (simp add: post_book_def post_book_check_def post_book_handler_def post_book_then_def
        verifyElement_def rating_ok_def icon_ok_def not_null_def num_ge_def insert_book_def
        split_def sample_entry_def sample_ratings_def empty_db_def route_defs sample_defs)
  have n: "decimal ''20000000000000'' = Some 20000000000000"
    by (simp add: decimal_def digit_def)
  show ?thesis
    unfolding p
    by (simp add: get_isbn_def get_isbn_handler_def get_isbn_then_def isbn_check_def
        select_by_isbn_def book_view_def joined_authors_def n sample_book_def
        route_defs sample_env_def num_gt_def)
qed

text \<open>
  C7 fails on the code. \<open>GET /isbns/10000000000000\<close>: the ISBN \<open>10^13\<close> is not
  rejected (the check is \<open>> 10^13\<close>), storage is queried and the book stored under
  it is returned. \<open>DELETE /isbns/-5\<close>: 400 "ISBN not in range" is sent, and
  \<open>next()\<close> still runs the delete, which removes the book stored under \<open>-5\<close>.
\<close>

theorem isbn_upper_bound_not_rejected:
  "get_isbn sample_env (Str ''10000000000000'') (fresh edge_db) =
     \<lparr>response = Some \<lparr>status = 200,
                         body = Result (toBook (view_row edge_db (sample_book 10000000000000 ''Dune'' 4)))\<rparr>,
      db = edge_db,
      queries = [SelectByIsbn (Str ''10000000000000'')]\<rparr>
   \<and> delete_isbn sample_env (Str ''-5'') (fresh edge_db) =
     \<lparr>response = Some \<lparr>status = 400,
                         body = Message ''ISBN not in range - please refer to documentation''\<rparr>,
      db = \<lparr>Books = [sample_book 10000000000000 ''Dune'' 4], Author = [(1, ''Amy'')],
             books_authors = [(10000000000000, 1)]\<rparr>,
      queries = [DeleteByIsbn (Str ''-5'')]\<rparr>"
  by (simp add: get_isbn_def get_isbn_handler_def get_isbn_then_def isbn_check_def
      select_by_isbn_def delete_isbn_def delete_isbn_handler_def delete_by_isbn_def
      delete_returning_def book_view_def edge_books edge_authors edge_remove sample_numbers
      route_defs sample_env_def num_gt_def)

subsection \<open>Adding a book\<close>

text \<open>
  C1 fails on the code. An entry whose only defect is the ISBN \<open>-1\<close> is answered
  with 400 "Invalid or missing ISBN", and the \<open>INSERT INTO Books\<close> is issued all the
  same: the row is stored and the author queries are issued.
\<close>

theorem insert_issued_after_rejection:
  "post_book sample_env (sample_entry (- 1)) (fresh empty_db) =
     \<lparr>response = Some \<lparr>status = 400,
                         body = Message ''Invalid or missing ISBN - please refer to documentation''\<rparr>,
      db = \<lparr>Books = [sample_book (- 1) ''Dune'' 5
                       \<lparr>rating_count := 100, rating_4_star := 0, rating_5_star := 100\<rparr>],
             Author = [], books_authors = []\<rparr>,
      queries = [InsertBook [Num (- 1), Num 1965, Num 5, Num 100, Num 0, Num 0, Num 0, Num 0, Num 100]
                   [Some ''Dune'', Some ''Dune'', Some ''l.png'', Some ''s.png''],
                 UpsertAuthor ''Zed'', UpsertAuthor ''Amy'']\<rparr>"
  by (simp add: post_book_def post_book_check_def post_book_handler_def post_book_then_def
      book_exists_or_server_error_def already_exists_def storage_error_def
      verifyElement_def rating_ok_def icon_ok_def not_null_def num_ge_def insert_book_def
      split_def sample_entry_def sample_ratings_def empty_db_def route_defs sample_defs)

subsection \<open>Deleting by title and by author\<close>

text \<open>
  C5 fails on the code. Two books carry the title "Dune" and both have authors: the
  scalar subquery \<open>(SELECT authors FROM delete_book)\<close> finds two rows, the statement
  fails, the answer is 500 and nothing is removed.
\<close>

theorem delete_title_two_matches_fails:
  "delete_title sample_env (Some ''Dune'') (fresh dune_db) =
     \<lparr>response = Some \<lparr>status = 500, body = Message ''server error - contact support''\<rparr>,
      db = dune_db,
      queries = [DeleteByTitle (Some ''Dune'')]\<rparr>"
  by (simp add: delete_title_def delete_title_handler_def delete_title_then_def name_check_def
      delete_by_title_def delete_returning_def book_view_def dune_books dune_authors
      route_defs sample_env_def storage_error_def)

text \<open>
  C6 fails on the code. \<open>DELETE /author/Amy\<close> returns the first book with the
  authors string "Zed, Amy": the names come in the order of the link rows, not sorted.
  \<open>GET /author/Amy\<close> returns the same book with the authors string "Amy": the
  other author of the book is not in it.
\<close>

theorem delete_author_authors_unsorted:
  "response (delete_author sample_env (Some ''Amy'') (fresh dune_db)) =
     Some \<lparr>status = 200,
           body = Results
             [toBook (book_row.extend (sample_book 1 ''Dune'' 4) (row.fields (Some ''Zed, Amy''))),
              toBook (book_row.extend (sample_book 2 ''Dune'' 3) (row.fields (Some ''Amy'')))]\<rparr>
   \<and> response (get_author sample_env (Some ''Amy'') (fresh dune_db)) =
     Some \<lparr>status = 200,
           body = Results
             [toBook (book_row.extend (sample_book 1 ''Dune'' 4) (row.fields (Some ''Amy''))),
              toBook (book_row.extend (sample_book 2 ''Dune'' 3) (row.fields (Some ''Amy'')))]\<rparr>"
  by (simp add: delete_author_def delete_author_handler_def delete_author_then_def name_check_def
      delete_by_author_def TRIM_def get_author_def get_author_handler_def get_author_then_def
      select_by_author_def dune_books dune_authors route_defs sample_env_def)

subsection \<open>Updating the ratings of a book\<close>

lemma run_all_append:
  "run_all (ss @ ts) w =
     (case run_all ss w of Returned w' \<Rightarrow> run_all ts w' | Threw w' \<Rightarrow> Threw w')"
  by (induction ss arbitrary: w) (auto split: completion.splits)

lemma check_provided_cases:
  "check_provided V x w =
     (if isNumberProvided V x then Returned w
      else if response w = None then
        Returned (w\<lparr>response := Some \<lparr>status = 400, body = Message missing_fields\<rparr>\<rparr>)
      else Threw w)"
  by (auto simp: check_provided_def send_def split: option.splits)

lemma check_count_cases:
  "check_count V x w =
     (if \<not> num_lt (toNumber V x) (Some 0) then Returned w
      else if response w = None then
        Returned (w\<lparr>response := Some \<lparr>status = 400, body = Message count_not_positive\<rparr>\<rparr>)
      else Threw w)"
  by (auto simp: check_count_def send_def split: option.splits)

lemma run_provided_sent:
  "response w \<noteq> None \<Longrightarrow>
     run_all (map (check_provided V) xs) w = Returned w
     \<or> run_all (map (check_provided V) xs) w = Threw w"
proof (induction xs)
  case Nil
  then show ?case by simp
next
  case (Cons x xs)
  then show ?case
    using check_provided_cases [of V x w] by (auto split: if_splits)
qed

lemma run_count_sent:
  "response w \<noteq> None \<Longrightarrow>
     run_all (map (check_count V) xs) w = Returned w
     \<or> run_all (map (check_count V) xs) w = Threw w"
proof (induction xs)
  case Nil
  then show ?case by simp
next
  case (Cons x xs)
  then show ?case
    using check_count_cases [of V x w] by (auto split: if_splits)
qed

lemma run_provided_ok:
  "\<forall>x \<in> set xs. isNumberProvided V x \<Longrightarrow> run_all (map (check_provided V) xs) w = Returned w"
  by (induction xs) (simp_all add: check_provided_def)

lemma run_count_ok:
  "\<forall>x \<in> set xs. \<not> num_lt (toNumber V x) (Some 0) \<Longrightarrow>
     run_all (map (check_count V) xs) w = Returned w"
  by (induction xs) (simp_all add: check_count_def)

lemma run_provided_missing:
  assumes "response w = None" and "\<exists>x \<in> set xs. \<not> isNumberProvided V x"
  shows "run_all (map (check_provided V) xs) w =
           Returned (w\<lparr>response := Some \<lparr>status = 400, body = Message missing_fields\<rparr>\<rparr>)
       \<or> run_all (map (check_provided V) xs) w =
           Threw (w\<lparr>response := Some \<lparr>status = 400, body = Message missing_fields\<rparr>\<rparr>)"
  using assms(2)
proof (induction xs)
  case Nil
  then show ?case by simp
next
  case (Cons x xs)
  let ?w = "w\<lparr>response := Some \<lparr>status = 400, body = Message missing_fields\<rparr>\<rparr>"
  show ?case
  proof (cases "isNumberProvided V x")
    case True
    then have "check_provided V x w = Returned w"
      by (simp add: check_provided_def)
    then show ?thesis
      using True Cons by simp
  next
    case False
    then have h: "check_provided V x w = Returned ?w"
      using assms(1) by (simp add: check_provided_cases)
    have "response ?w \<noteq> None" by simp
    from run_provided_sent [OF this, of V xs] show ?thesis
      using h by auto
  qed
qed

lemma run_count_negative:
  assumes "response w = None" and "\<exists>x \<in> set xs. num_lt (toNumber V x) (Some 0)"
  shows "run_all (map (check_count V) xs) w =
           Returned (w\<lparr>response := Some \<lparr>status = 400, body = Message count_not_positive\<rparr>\<rparr>)
       \<or> run_all (map (check_count V) xs) w =
           Threw (w\<lparr>response := Some \<lparr>status = 400, body = Message count_not_positive\<rparr>\<rparr>)"
  using assms(2)
proof (induction xs)
  case Nil
  then show ?case by simp
next
  case (Cons x xs)
  let ?w = "w\<lparr>response := Some \<lparr>status = 400, body = Message count_not_positive\<rparr>\<rparr>"
  show ?case
  proof (cases "num_lt (toNumber V x) (Some 0)")
    case False
    then have "check_count V x w = Returned w"
      by (simp add: check_count_def)
    then show ?thesis
      using False Cons by simp
  next
    case True
    then have h: "check_count V x w = Returned ?w"
      using assms(1) by (simp add: check_count_cases)
    have "response ?w \<noteq> None" by simp
    from run_count_sent [OF this, of V xs] show ?thesis
      using h by auto
  qed
qed

text \<open>The two loops of the validator, on a request that has not been answered.\<close>

lemma run_checks:
  assumes "response w = None"
  shows "\<exists>c. run_all (map (check_provided V) xs @ map (check_count V) ys) w = c
       \<and> response (finish c) =
           (if \<exists>x \<in> set xs. \<not> isNumberProvided V x then
              Some \<lparr>status = 400, body = Message missing_fields\<rparr>
            else if \<exists>y \<in> set ys. num_lt (toNumber V y) (Some 0) then
              Some \<lparr>status = 400, body = Message count_not_positive\<rparr>
            else None)
       \<and> db (finish c) = db w \<and> queries (finish c) = queries w
       \<and> (\<forall>w'. c = Threw w' \<longrightarrow> response w' \<noteq> None)"
proof (cases "\<exists>x \<in> set xs. \<not> isNumberProvided V x")
  case True
  let ?w = "w\<lparr>response := Some \<lparr>status = 400, body = Message missing_fields\<rparr>\<rparr>"
  have s: "response ?w \<noteq> None" by simp
  from run_provided_missing [OF assms True] run_count_sent [OF s, of V ys] True
  show ?thesis
    by (auto simp: run_all_append finish_def)
next
  case False
  then have p: "run_all (map (check_provided V) xs) w = Returned w"
    using run_provided_ok [of xs V w] by simp
  show ?thesis
  proof (cases "\<exists>y \<in> set ys. num_lt (toNumber V y) (Some 0)")
    case True
    from run_count_negative [OF assms True] False True p show ?thesis
      by (auto simp: run_all_append finish_def)
  next
    case n: False
    then have "run_all (map (check_count V) ys) w = Returned w"
      using run_count_ok [of ys V w] by simp
    then show ?thesis
      using False n p assms by (simp add: run_all_append finish_def)
  qed
qed


lemma run_checks_sent:
  assumes "response w \<noteq> None"
  shows "run_all (map (check_provided V) xs @ map (check_count V) ys) w = Returned w
       \<or> run_all (map (check_provided V) xs @ map (check_count V) ys) w = Threw w"
  using run_provided_sent [OF assms, of V xs] run_count_sent [OF assms, of V ys]
  by (auto simp: run_all_append)

lemma rating_validate_sent:
  assumes "response w \<noteq> None"
    and "num_gt (toNumber V (ratings_body.average r)) (Some 5)
         \<or> num_lt (toNumber V (ratings_body.average r)) (Some 1)"
  shows "rating_validate V r w = (Stop, w)"
  using run_checks_sent [OF assms(1), of V
      "[ratings_body.average r, ratings_body.count r, rating1 r, rating2 r, rating3 r,
        rating4 r, rating5 r]"
      "[ratings_body.count r, rating1 r, rating2 r, rating3 r, rating4 r, rating5 r]"]
    assms
  by (auto simp: rating_validate_def Let_def error_handler_def ends_def send_def
      split: option.splits)

lemma rating_validate_fresh:
  assumes "response w = None"
  shows "response (snd (rating_validate V r w)) =
           (if \<exists>x \<in> set [ratings_body.average r, ratings_body.count r, rating1 r, rating2 r,
                            rating3 r, rating4 r, rating5 r]. \<not> isNumberProvided V x then
              Some \<lparr>status = 400, body = Message missing_fields\<rparr>
            else if \<exists>y \<in> set [ratings_body.count r, rating1 r, rating2 r, rating3 r,
                                 rating4 r, rating5 r]. num_lt (toNumber V y) (Some 0) then
              Some \<lparr>status = 400, body = Message count_not_positive\<rparr>
            else if num_gt (toNumber V (ratings_body.average r)) (Some 5)
                    \<or> num_lt (toNumber V (ratings_body.average r)) (Some 1) then
              Some \<lparr>status = 400, body = Message average_not_in_range\<rparr>
            else None)
       \<and> db (snd (rating_validate V r w)) = db w
       \<and> queries (snd (rating_validate V r w)) = queries w
       \<and> (fst (rating_validate V r w) = Next \<longrightarrow>
            \<not> (num_gt (toNumber V (ratings_body.average r)) (Some 5)
               \<or> num_lt (toNumber V (ratings_body.average r)) (Some 1)))
       \<and> (response (snd (rating_validate V r w)) = None \<longrightarrow>
            rating_validate V r w = (Next, w))"
proof -
  let ?xs = "[ratings_body.average r, ratings_body.count r, rating1 r, rating2 r, rating3 r,
              rating4 r, rating5 r]"
  let ?ys = "[ratings_body.count r, rating1 r, rating2 r, rating3 r, rating4 r, rating5 r]"
  from run_checks [OF assms, of V ?xs ?ys]
  obtain c where c: "run_all (map (check_provided V) ?xs @ map (check_count V) ?ys) w = c"
    and r: "response (finish c) =
           (if \<exists>x \<in> set ?xs. \<not> isNumberProvided V x then
              Some \<lparr>status = 400, body = Message missing_fields\<rparr>
            else if \<exists>y \<in> set ?ys. num_lt (toNumber V y) (Some 0) then
              Some \<lparr>status = 400, body = Message count_not_positive\<rparr>
            else None)"
    and d: "db (finish c) = db w" and q: "queries (finish c) = queries w"
    and t: "\<forall>w'. c = Threw w' \<longrightarrow> response w' \<noteq> None"
    by blast
  have v: "rating_validate V r w =
      (case c of
         Threw w' \<Rightarrow> (Stop, error_handler w')
       | Returned w' \<Rightarrow>
           if num_gt (toNumber V (ratings_body.average r)) (Some 5)
              \<or> num_lt (toNumber V (ratings_body.average r)) (Some 1)
           then ends (send 400 (Message average_not_in_range) w')
           else (Next, w'))"
    using c by (simp add: rating_validate_def Let_def split: completion.splits)
  show ?thesis
  proof (cases c)
    case (Threw w')
    then show ?thesis
      using v r d q t by (auto simp: finish_def error_handler_def split: option.splits)
  next
    case (Returned w')
    show ?thesis
    proof (cases "response w'")
      case None
      then have "w' = w"
        using d q Returned assms by (auto simp: finish_def intro: world.equality)
      then show ?thesis
        using v r None Returned
        by (auto simp: finish_def ends_def send_def split: if_splits)
    next
      case (Some x)
      then show ?thesis
        using v r d q Returned
        by (auto simp: finish_def ends_def send_def error_handler_def split: if_splits)
    qed
  qed
qed

lemma isbn_check_fresh:
  assumes "response w = None"
  shows "fst (isbn_check V isbn w) = Next
       \<and> db (snd (isbn_check V isbn w)) = db w
       \<and> queries (snd (isbn_check V isbn w)) = queries w
       \<and> (response (snd (isbn_check V isbn w)) = None
          \<or> (\<exists>b. response (snd (isbn_check V isbn w)) = Some \<lparr>status = 400, body = b\<rparr>))"
  using assms by (simp add: isbn_check_def calls_next_def send_def)

lemma then_catch_sent:
  assumes "response w = Some x"
    and "\<And>y w'. response w' = Some x \<Longrightarrow> response (finish (f y w')) = Some x"
    and "\<And>e w'. response w' = Some x \<Longrightarrow> response (finish (g e w')) = Some x"
    and "\<And>y w' w''. f y w' = Threw w'' \<Longrightarrow> response w'' = response w'"
  shows "response (then_catch res f g w) = Some x"
proof (cases res)
  case (Inl e)
  then show ?thesis using assms(1,3) by (simp add: then_catch_def)
next
  case (Inr y)
  show ?thesis
  proof (cases "f y w")
    case (Returned w')
    then show ?thesis
      using Inr assms(1) assms(2) [of w y] by (simp add: then_catch_def finish_def)
  next
    case (Threw w')
    then have "response w' = Some x"
      using assms(1) assms(4) [of y w w'] by simp
    then show ?thesis
      using Inr Threw assms(3) by (simp add: then_catch_def)
  qed
qed

lemma put_rating_handler_sent:
  assumes "response w = Some x"
  shows "response (put_rating_handler V isbn r w) = Some x"
proof -
  obtain res d where u: "update_rating V (db w) 
      [ratings_body.average r, ratings_body.count r, rating1 r, rating2 r, rating3 r,
       rating4 r, rating5 r] isbn = (res, d)"
    by (cases "update_rating V (db w) 
      [ratings_body.average r, ratings_body.count r, rating1 r, rating2 r, rating3 r,
       rating4 r, rating5 r] isbn")
  have "response (then_catch res put_rating_then name_exists_or_server_error
            (issue (UpdateRating [ratings_body.average r, ratings_body.count r, rating1 r,
               rating2 r, rating3 r, rating4 r, rating5 r] isbn) w \<lparr>db := d\<rparr>)) = Some x"
    by (rule then_catch_sent)
      (auto simp: assms issue_def put_rating_then_def name_exists_or_server_error_def
        server_error_def send_def finish_def split: if_splits option.splits)
  then show ?thesis
    using u by (simp add: put_rating_handler_def Let_def issue_def)
qed

lemma put_rating_answered:
  assumes "response (snd (isbn_check V isbn w)) = None"
    and "response (snd (rating_validate V r w)) = Some x"
  shows "response (put_rating V isbn r w) = Some x"
proof -
  have n: "isbn_check V isbn w = (Next, w)"
    using assms(1) by (rule isbn_check_silent)
  obtain f w' where v: "rating_validate V r w = (f, w')"
    by (cases "rating_validate V r w")
  then have x: "response w' = Some x"
    using assms(2) by simp
  show ?thesis
  proof (cases f)
    case Next
    then show ?thesis
      using n v put_rating_handler_sent [OF x, of V isbn r]
      by (simp add: put_rating_def chain_def chain2_def)
  next
    case Stop
    then show ?thesis
      using n v x by (simp add: put_rating_def chain_def chain2_def)
  qed
qed

lemma check_one: "response (snd (isbn_check sample_env (Str ''1'') (fresh dune_db))) = None"
  by (simp add: isbn_check_def route_defs sample_defs num_gt_def)

text \<open>
  C3, as the code has it. For a request whose ISBN passes the checks of the route, the
  constraints are checked in the order: all seven fields provided, then the six counts
  not negative, then the average within 1 to 5; the response is the 400 of the first
  constraint violated in that order, whatever the later ones are.
\<close>

theorem rating_update_first_failure:
  assumes "response (snd (isbn_check V isbn w)) = None"
    and "xs = [ratings_body.average r, ratings_body.count r, rating1 r, rating2 r, rating3 r,
               rating4 r, rating5 r]"
    and "ys = [ratings_body.count r, rating1 r, rating2 r, rating3 r, rating4 r, rating5 r]"
  shows "((\<exists>x \<in> set xs. \<not> isNumberProvided V x) \<longrightarrow>
            response (put_rating V isbn r w) =
              Some \<lparr>status = 400, body = Message missing_fields\<rparr>)
       \<and> ((\<forall>x \<in> set xs. isNumberProvided V x) \<and> (\<exists>y \<in> set ys. num_lt (toNumber V y) (Some 0)) \<longrightarrow>
            response (put_rating V isbn r w) =
              Some \<lparr>status = 400, body = Message count_not_positive\<rparr>)
       \<and> ((\<forall>x \<in> set xs. isNumberProvided V x) \<and> (\<forall>y \<in> set ys. \<not> num_lt (toNumber V y) (Some 0))
           \<and> (num_gt (toNumber V (ratings_body.average r)) (Some 5)
              \<or> num_lt (toNumber V (ratings_body.average r)) (Some 1)) \<longrightarrow>
            response (put_rating V isbn r w) =
              Some \<lparr>status = 400, body = Message average_not_in_range\<rparr>)"
proof -
  have "isbn_check V isbn w = (Next, w)"
    using assms(1) by (rule isbn_check_silent)
  then have f: "response w = None"
    using assms(1) by simp
  note v = rating_validate_fresh [OF f, of V r, THEN conjunct1]
  have a: "response (put_rating V isbn r w) = Some \<lparr>status = 400, body = Message missing_fields\<rparr>"
    if "\<exists>x \<in> set xs. \<not> isNumberProvided V x"
    using that v assms(2) by (intro put_rating_answered [OF assms(1)]) auto
  have b: "response (put_rating V isbn r w) =
             Some \<lparr>status = 400, body = Message count_not_positive\<rparr>"
    if "\<forall>x \<in> set xs. isNumberProvided V x" and "\<exists>y \<in> set ys. num_lt (toNumber V y) (Some 0)"
    using that v assms(2,3) by (intro put_rating_answered [OF assms(1)]) auto
  have c: "response (put_rating V isbn r w) =
             Some \<lparr>status = 400, body = Message average_not_in_range\<rparr>"
    if "\<forall>x \<in> set xs. isNumberProvided V x" and "\<forall>y \<in> set ys. \<not> num_lt (toNumber V y) (Some 0)"
      and "num_gt (toNumber V (ratings_body.average r)) (Some 5)
           \<or> num_lt (toNumber V (ratings_body.average r)) (Some 1)"
    using that v assms(2,3) by (intro put_rating_answered [OF assms(1)]) auto
  show ?thesis
    using a b c by blast
qed

theorem rating_update_first_failure_witness:
  "response (put_rating sample_env (Str ''1'') (sample_ratings 7 100) (fresh dune_db)) =
     Some \<lparr>status = 400, body = Message average_not_in_range\<rparr>
   \<and> response (put_rating sample_env (Str ''1'')
        ((sample_ratings 0 100)\<lparr>rating3 := Undefined\<rparr>) (fresh dune_db)) =
     Some \<lparr>status = 400, body = Message missing_fields\<rparr>"
proof -
  have a: "response (put_rating sample_env (Str ''1'') (sample_ratings 7 100) (fresh dune_db)) =
     Some \<lparr>status = 400, body = Message average_not_in_range\<rparr>"
    using rating_update_first_failure [OF check_one refl refl, of "sample_ratings 7 100"]
    by (simp add: sample_ratings_def sample_env_def num_gt_def)
  have b: "response (put_rating sample_env (Str ''1'')
        ((sample_ratings 0 100)\<lparr>rating3 := Undefined\<rparr>) (fresh dune_db)) =
     Some \<lparr>status = 400, body = Message missing_fields\<rparr>"
    using rating_update_first_failure [OF check_one refl refl,
        of "(sample_ratings 0 100)\<lparr>rating3 := Undefined\<rparr>"]
    by (simp add: sample_ratings_def sample_env_def)
  show ?thesis
    using a b by simp
qed

text \<open>
  C3 as stated fails: a payload whose average is 0 and whose count is -1 is answered with
  "Rating count must be positive", not with the out-of-range average: the counts are
  checked before the average.
\<close>

theorem rating_update_order_counterexample:
  "response (put_rating sample_env (Str ''1'') (sample_ratings 0 (- 1)) (fresh dune_db)) =
     Some \<lparr>status = 400, body = Message count_not_positive\<rparr>
   \<and> response (put_rating sample_env (Str ''1'') (sample_ratings 0 (- 1)) (fresh dune_db)) \<noteq>
     Some \<lparr>status = 400, body = Message average_not_in_range\<rparr>"
  by (simp add: put_rating_def rating_validate_def isbn_check_def check_provided_def
      check_count_def sample_ratings_def count_not_positive_def average_not_in_range_def
      num_gt_def route_defs sample_defs)

lemma put_rating_stop:
  assumes "isbn_check V isbn w = (Next, w1)" and "rating_validate V r w1 = (Stop, w2)"
  shows "put_rating V isbn r w = w2"
  using assms by (simp add: put_rating_def chain_def chain2_def)

lemma put_rating_average_bad:
  assumes "response w = None"
    and bad: "num_gt (toNumber V (ratings_body.average r)) (Some 5)
              \<or> num_lt (toNumber V (ratings_body.average r)) (Some 1)"
  shows "db (put_rating V isbn r w) = db w \<and> queries (put_rating V isbn r w) = queries w
       \<and> (\<exists>b. response (put_rating V isbn r w) = Some \<lparr>status = 400, body = b\<rparr>)"
proof -
  obtain w1 where c: "isbn_check V isbn w = (Next, w1)"
    using isbn_check_fresh [OF assms(1), of V isbn] by (cases "isbn_check V isbn w") auto
  have d1: "db w1 = db w" and q1: "queries w1 = queries w"
    and r1: "response w1 = None \<or> (\<exists>b. response w1 = Some \<lparr>status = 400, body = b\<rparr>)"
    using isbn_check_fresh [OF assms(1), of V isbn] c by auto
  show ?thesis
  proof (cases "response w1")
    case None
    obtain f w2 where v: "rating_validate V r w1 = (f, w2)"
      by (cases "rating_validate V r w1")
    from rating_validate_fresh [OF None, of V r] v bad
    have "f = Stop" and "db w2 = db w1" and "queries w2 = queries w1"
      and "\<exists>b. response w2 = Some \<lparr>status = 400, body = b\<rparr>"
      by (cases f; auto split: if_splits)+
    then show ?thesis
      using put_rating_stop [OF c] v d1 q1 by auto
  next
    case (Some x)
    then have "rating_validate V r w1 = (Stop, w1)"
      using rating_validate_sent [of w1 V r] bad by simp
    then show ?thesis
      using put_rating_stop [OF c] d1 q1 r1 Some by auto
  qed
qed

lemma put_rating_valid:
  assumes "response (snd (isbn_check V isbn w)) = None"
    and "bind_numeric V isbn = Inr (Some i)"
    and r: "r = \<lparr>ratings_body.average = Num a, ratings_body.count = Num c, rating1 = Num r1,
                 rating2 = Num r2, rating3 = Num r3, rating4 = Num r4, rating5 = Num r5\<rparr>"
    and "1 \<le> a" "a \<le> 5" "0 \<le> c" "0 \<le> r1" "0 \<le> r2" "0 \<le> r3" "0 \<le> r4" "0 \<le> r5"
    and "\<forall>x \<in> set [a, c, r1, r2, r3, r4, r5]. isNumberProvided V (Num x)"
  shows "put_rating V isbn r w =
           finish (put_rating_then
             (map (\<lambda>b. book_row.extend (set_ratings [a, c, r1, r2, r3, r4, r5] b) (row.fields None))
                (filter (\<lambda>b. book_row.isbn13 b = i) (Books (db w))))
             (w\<lparr>queries := queries w @ [UpdateRating [Num a, Num c, Num r1, Num r2, Num r3, Num r4, Num r5] isbn],
                db := (db w)\<lparr>Books := map (\<lambda>b. if book_row.isbn13 b = i
                                                then set_ratings [a, c, r1, r2, r3, r4, r5] b else b)
                                          (Books (db w))\<rparr>\<rparr>))"
proof -
  have n: "isbn_check V isbn w = (Next, w)"
    using assms(1) by (rule isbn_check_silent)
  then have f: "response w = None"
    using assms(1) by simp
  have "response (snd (rating_validate V r w)) = None"
    using rating_validate_fresh [OF f, of V r, THEN conjunct1] assms(4-)
    by (simp add: r num_gt_def)
  then have v: "rating_validate V r w = (Next, w)"
    using rating_validate_fresh [OF f, of V r] by blast
  have b: "bind_all V [Num a, Num c, Num r1, Num r2, Num r3, Num r4, Num r5] =
             Inr [a, c, r1, r2, r3, r4, r5]"
    by simp
  show ?thesis
    using n v f
    by (simp add: put_rating_def chain_def chain2_def put_rating_handler_def Let_def r
        update_rating_def b assms(2) issue_def then_catch_def put_rating_then_def send_def
        finish_def)
qed

text \<open>
  C4, as the code has it. A rating update whose payload has average 0 is answered with a
  400, issues no statement and leaves the storage as it was, whatever the ISBN and the
  other fields are; the 400 is the range error of the average when the ISBN passes its
  checks and the other fields are provided and not negative, and the 400 of an earlier
  check otherwise. A rating update with seven numbers, the average within 1 to 5 and the
  counts not negative (nothing relates the count to the per-star counts), sets the seven
  rating columns of the rows with that ISBN to exactly the numbers supplied, leaves
  every other row as it was, and, when one row has that ISBN, answers 201 with that row
  as updated.
\<close>

theorem rating_update_zero_rejected_valid_stored:
  assumes "response w = None"
  shows "(ratings_body.average r = Num 0 \<longrightarrow>
            db (put_rating V isbn r w) = db w \<and> queries (put_rating V isbn r w) = queries w
            \<and> (\<exists>b. response (put_rating V isbn r w) = Some \<lparr>status = 400, body = b\<rparr>))
       \<and> (ratings_body.average r = Num 0 \<and> response (snd (isbn_check V isbn w)) = None
           \<and> (\<forall>x \<in> set [ratings_body.average r, ratings_body.count r, rating1 r, rating2 r,
                           rating3 r, rating4 r, rating5 r]. isNumberProvided V x)
           \<and> (\<forall>y \<in> set [ratings_body.count r, rating1 r, rating2 r, rating3 r, rating4 r,
                           rating5 r]. \<not> num_lt (toNumber V y) (Some 0)) \<longrightarrow>
            response (put_rating V isbn r w) =
              Some \<lparr>status = 400, body = Message average_not_in_range\<rparr>)
       \<and> (r = \<lparr>ratings_body.average = Num a, ratings_body.count = Num c, rating1 = Num r1,
                rating2 = Num r2, rating3 = Num r3, rating4 = Num r4, rating5 = Num r5\<rparr>
           \<and> 1 \<le> a \<and> a \<le> 5 \<and> 0 \<le> c \<and> 0 \<le> r1 \<and> 0 \<le> r2 \<and> 0 \<le> r3 \<and> 0 \<le> r4 \<and> 0 \<le> r5
           \<and> (\<forall>x \<in> set [a, c, r1, r2, r3, r4, r5]. isNumberProvided V (Num x))
           \<and> response (snd (isbn_check V isbn w)) = None
           \<and> bind_numeric V isbn = Inr (Some i) \<longrightarrow>
            Books (db (put_rating V isbn r w)) =
              map (\<lambda>b. if book_row.isbn13 b = i
                       then b\<lparr>rating_avg := a, rating_count := c, rating_1_star := r1,
                              rating_2_star := r2, rating_3_star := r3, rating_4_star := r4,
                              rating_5_star := r5\<rparr>
                       else b) (Books (db w))
            \<and> (\<forall>b. filter (\<lambda>b. book_row.isbn13 b = i) (Books (db w)) = [b] \<longrightarrow>
                  response (put_rating V isbn r w) =
                    Some \<lparr>status = 201,
                          body = Result (toBook (book_row.extend
                            (b\<lparr>rating_avg := a, rating_count := c, rating_1_star := r1,
                               rating_2_star := r2, rating_3_star := r3, rating_4_star := r4,
                               rating_5_star := r5\<rparr>) (row.fields None)))\<rparr>))"
proof (intro conjI impI)
  assume z: "ratings_body.average r = Num 0"
  then have bad: "num_gt (toNumber V (ratings_body.average r)) (Some 5)
              \<or> num_lt (toNumber V (ratings_body.average r)) (Some 1)"
    by simp
  from put_rating_average_bad [OF assms bad, of isbn]
  show "db (put_rating V isbn r w) = db w" and "queries (put_rating V isbn r w) = queries w"
    and "\<exists>b. response (put_rating V isbn r w) = Some \<lparr>status = 400, body = b\<rparr>"
    by auto
next
  assume h: "ratings_body.average r = Num 0 \<and> response (snd (isbn_check V isbn w)) = None
           \<and> (\<forall>x \<in> set [ratings_body.average r, ratings_body.count r, rating1 r, rating2 r,
                           rating3 r, rating4 r, rating5 r]. isNumberProvided V x)
           \<and> (\<forall>y \<in> set [ratings_body.count r, rating1 r, rating2 r, rating3 r, rating4 r,
                           rating5 r]. \<not> num_lt (toNumber V y) (Some 0))"
  then have "response (snd (rating_validate V r w)) =
               Some \<lparr>status = 400, body = Message average_not_in_range\<rparr>"
    using rating_validate_fresh [OF assms, of V r, THEN conjunct1] by auto
  then show "response (put_rating V isbn r w) =
               Some \<lparr>status = 400, body = Message average_not_in_range\<rparr>"
    using h by (intro put_rating_answered) auto
next
  assume h: "r = \<lparr>ratings_body.average = Num a, ratings_body.count = Num c, rating1 = Num r1,
                rating2 = Num r2, rating3 = Num r3, rating4 = Num r4, rating5 = Num r5\<rparr>
           \<and> 1 \<le> a \<and> a \<le> 5 \<and> 0 \<le> c \<and> 0 \<le> r1 \<and> 0 \<le> r2 \<and> 0 \<le> r3 \<and> 0 \<le> r4 \<and> 0 \<le> r5
           \<and> (\<forall>x \<in> set [a, c, r1, r2, r3, r4, r5]. isNumberProvided V (Num x))
           \<and> response (snd (isbn_check V isbn w)) = None
           \<and> bind_numeric V isbn = Inr (Some i)"
  then have p: "put_rating V isbn r w =
           finish (put_rating_then
             (map (\<lambda>b. book_row.extend (set_ratings [a, c, r1, r2, r3, r4, r5] b) (row.fields None))
                (filter (\<lambda>b. book_row.isbn13 b = i) (Books (db w))))
             (w\<lparr>queries := queries w @ [UpdateRating [Num a, Num c, Num r1, Num r2, Num r3, Num r4, Num r5] isbn],
                db := (db w)\<lparr>Books := map (\<lambda>b. if book_row.isbn13 b = i
                                                then set_ratings [a, c, r1, r2, r3, r4, r5] b else b)
                                          (Books (db w))\<rparr>\<rparr>))"
    by (intro put_rating_valid) auto
  show "Books (db (put_rating V isbn r w)) =
              map (\<lambda>b. if book_row.isbn13 b = i
                       then b\<lparr>rating_avg := a, rating_count := c, rating_1_star := r1,
                              rating_2_star := r2, rating_3_star := r3, rating_4_star := r4,
                              rating_5_star := r5\<rparr>
                       else b) (Books (db w))"
    using assms by (simp add: p put_rating_then_def send_def finish_def set_ratings_def)
  show "\<forall>b. filter (\<lambda>b. book_row.isbn13 b = i) (Books (db w)) = [b] \<longrightarrow>
                  response (put_rating V isbn r w) =
                    Some \<lparr>status = 201,
                          body = Result (toBook (book_row.extend
                            (b\<lparr>rating_avg := a, rating_count := c, rating_1_star := r1,
                               rating_2_star := r2, rating_3_star := r3, rating_4_star := r4,
                               rating_5_star := r5\<rparr>) (row.fields None)))\<rparr>"
    using assms by (simp add: p put_rating_then_def send_def finish_def set_ratings_def)
qed

theorem rating_update_zero_rejected_valid_stored_witness:
  "db (put_rating sample_env (Str ''1'') (sample_ratings 0 100) (fresh dune_db)) = dune_db
   \<and> response (put_rating sample_env (Str ''1'') (sample_ratings 0 100) (fresh dune_db)) =
       Some \<lparr>status = 400, body = Message average_not_in_range\<rparr>
   \<and> Books (db (put_rating sample_env (Str ''1'') (sample_ratings 5 100) (fresh dune_db))) =
       [sample_book 1 ''Dune'' 5 \<lparr>rating_count := 100, rating_4_star := 0, rating_5_star := 100\<rparr>,
        sample_book 2 ''Dune'' 3, sample_book 3 ''Emma'' 5]
   \<and> response (put_rating sample_env (Str ''1'') (sample_ratings 5 100) (fresh dune_db)) =
       Some \<lparr>status = 201,
             body = Result (toBook (book_row.extend
               (sample_book 1 ''Dune'' 5 \<lparr>rating_count := 100, rating_4_star := 0,
                                           rating_5_star := 100\<rparr>) (row.fields None)))\<rparr>"
proof -
  have f: "response (fresh dune_db) = None"
    by (simp add: fresh_def)
  have b: "bind_numeric sample_env (Str ''1'') = Inr (Some 1)"
    by (simp add: sample_defs)
  have p: "\<forall>x \<in> set [5, 100, 0, 0, 0, 0, 100 :: rat]. isNumberProvided sample_env (Num x)"
    by (simp add: sample_env_def)
  have m: "filter (\<lambda>b. book_row.isbn13 b = 1) (Books (db (fresh dune_db))) = [sample_book 1 ''Dune'' 4]"
    by (simp add: fresh_def dune_books sample_book_def)
  note t0 = rating_update_zero_rejected_valid_stored [OF f, of "sample_ratings 0 100" sample_env "Str ''1''"]
  note t5 = rating_update_zero_rejected_valid_stored [OF f, of "sample_ratings 5 100" sample_env "Str ''1''"
      5 100 0 0 0 0 100 1]
  have a0: "ratings_body.average (sample_ratings 0 100) = Num 0"
    by (simp add: sample_ratings_def)
  have h0: "ratings_body.average (sample_ratings 0 100) = Num 0
      \<and> response (snd (isbn_check sample_env (Str ''1'') (fresh dune_db))) = None
      \<and> (\<forall>x \<in> set [ratings_body.average (sample_ratings 0 100),
             ratings_body.count (sample_ratings 0 100), rating1 (sample_ratings 0 100),
             rating2 (sample_ratings 0 100), rating3 (sample_ratings 0 100),
             rating4 (sample_ratings 0 100), rating5 (sample_ratings 0 100)].
            isNumberProvided sample_env x)
      \<and> (\<forall>y \<in> set [ratings_body.count (sample_ratings 0 100), rating1 (sample_ratings 0 100),
             rating2 (sample_ratings 0 100), rating3 (sample_ratings 0 100),
             rating4 (sample_ratings 0 100), rating5 (sample_ratings 0 100)].
            \<not> num_lt (toNumber sample_env y) (Some 0))"
    using check_one by (simp add: sample_ratings_def sample_env_def)
  have h5: "sample_ratings 5 100 =
        \<lparr>ratings_body.average = Num 5, ratings_body.count = Num 100, rating1 = Num 0,
         rating2 = Num 0, rating3 = Num 0, rating4 = Num 0, rating5 = Num 100\<rparr>
      \<and> (1::rat) \<le> 5 \<and> (5::rat) \<le> 5 \<and> (0::rat) \<le> 100 \<and> (0::rat) \<le> 0 \<and> (0::rat) \<le> 0
      \<and> (0::rat) \<le> 0 \<and> (0::rat) \<le> 0 \<and> (0::rat) \<le> 100
      \<and> (\<forall>x \<in> set [5, 100, 0, 0, 0, 0, 100 :: rat]. isNumberProvided sample_env (Num x))
      \<and> response (snd (isbn_check sample_env (Str ''1'') (fresh dune_db))) = None
      \<and> bind_numeric sample_env (Str ''1'') = Inr (Some 1)"
    using check_one b p by (simp add: sample_ratings_def)
  have z: "db (put_rating sample_env (Str ''1'') (sample_ratings 0 100) (fresh dune_db)) = dune_db
   \<and> response (put_rating sample_env (Str ''1'') (sample_ratings 0 100) (fresh dune_db)) =
       Some \<lparr>status = 400, body = Message average_not_in_range\<rparr>"
    using t0 [THEN conjunct1, rule_format, OF a0]
      t0 [THEN conjunct2, THEN conjunct1, rule_format, OF h0]
    by (simp add: fresh_def)
  have v: "Books (db (put_rating sample_env (Str ''1'') (sample_ratings 5 100) (fresh dune_db))) =
       [sample_book 1 ''Dune'' 5 \<lparr>rating_count := 100, rating_4_star := 0, rating_5_star := 100\<rparr>,
        sample_book 2 ''Dune'' 3, sample_book 3 ''Emma'' 5]
   \<and> response (put_rating sample_env (Str ''1'') (sample_ratings 5 100) (fresh dune_db)) =
       Some \<lparr>status = 201,
             body = Result (toBook (book_row.extend
               (sample_book 1 ''Dune'' 5 \<lparr>rating_count := 100, rating_4_star := 0,
                                           rating_5_star := 100\<rparr>) (row.fields None)))\<rparr>"
    using t5 [THEN conjunct2, THEN conjunct2, rule_format, OF h5, THEN conjunct1]
      t5 [THEN conjunct2, THEN conjunct2, rule_format, OF h5, THEN conjunct2, rule_format, OF m]
    by (simp add: fresh_def dune_books sample_book_def)
  show ?thesis
    using z v by simp
qed

text \<open>
  C4 as stated fails: a payload whose average is 0 and whose \<open>rating3\<close> is absent is
  answered with "Missing fields within the body", not with the range error of the
  average.
\<close>

theorem rating_update_zero_missing_field_counterexample:
  "ratings_body.average ((sample_ratings 0 100)\<lparr>rating3 := Undefined\<rparr>) = Num 0
   \<and> response (put_rating sample_env (Str ''1'')
        ((sample_ratings 0 100)\<lparr>rating3 := Undefined\<rparr>) (fresh dune_db)) =
       Some \<lparr>status = 400, body = Message missing_fields\<rparr>
   \<and> response (put_rating sample_env (Str ''1'')
        ((sample_ratings 0 100)\<lparr>rating3 := Undefined\<rparr>) (fresh dune_db)) \<noteq>
       Some \<lparr>status = 400, body = Message average_not_in_range\<rparr>"
  by (simp add: put_rating_def rating_validate_def isbn_check_def check_provided_def
      check_count_def sample_ratings_def missing_fields_def average_not_in_range_def
      num_gt_def route_defs sample_defs)

subsection \<open>Books by rating range\<close>










subsection \<open>Pagination\<close>

lemma of_nat_le_2_53:
  assumes "n \<le> 2 ^ 53"
  shows "(of_nat n :: rat) \<le> 2 ^ 53"
proof -
  have "(of_nat n :: rat) \<le> of_nat (2 ^ 53)"
    using assms by (simp only: of_nat_le_iff)
  then show ?thesis by simp
qed

lemma binary64_of_nat: "n \<le> 2 ^ 53 \<Longrightarrow> binary64 (of_nat n) = of_nat n"
  using of_nat_le_2_53 [of n] by (simp add: binary64_def)

lemma bind_bigint_of_nat: "n \<le> 2 ^ 53 \<Longrightarrow> bind_bigint E (Some (of_nat n)) = Inr n"
  using of_nat_le_2_53 [of n] by (simp add: bind_bigint_def)

lemma limit_of_values:
  "limit_of V Undefined = Some 16"
  "limit_of V Null = Some 16"
  "limit_of V (Num x) = (if isNumberProvided V (Num x) \<and> 0 < x then Some x else Some 16)"
  "limit_of V (Str s) =
     (if isNumberProvided V (Str s) \<and> (\<exists>y. Number V s = Some y \<and> 0 < y) then Number V s
      else Some 16)"
  by (cases "Number V s"; simp add: limit_of_def num_gt_def)+

lemma offset_of_values:
  "offset_of V Undefined = Some 0"
  "offset_of V Null = Some 0"
  "offset_of V (Num x) = (if isNumberProvided V (Num x) \<and> 0 \<le> x then Some x else Some 0)"
  "offset_of V (Str s) =
     (if isNumberProvided V (Str s) \<and> (\<exists>y. Number V s = Some y \<and> 0 \<le> y) then Number V s
      else Some 0)"
  by (cases "Number V s"; simp add: offset_of_def num_ge_def)+

lemma pagination_reply:
  assumes "response w = None"
  shows "response (pagination_offset V E rawLimit rawOffset w) =
           (case select_page E (db w) (limit_of V rawLimit) (offset_of V rawOffset) of
              Inl e \<Rightarrow> None
            | Inr rows \<Rightarrow>
                Some \<lparr>status = 200,
                      body = Page (map toBook rows)
                        \<lparr>totalRecords = Some (binary64 (of_nat (length (Books (db w))))),
                         limit = limit_of V rawLimit, offset = offset_of V rawOffset,
                         nextPage = num_add (limit_of V rawLimit) (offset_of V rawOffset)\<rparr>\<rparr>)"
  using assms
  by (simp add: pagination_offset_def Let_def issue_def count_books_def send_def finish_def
      split: sum.splits)

text \<open>
  The sum of \<open>2^53\<close> and 1 is not a binary64 number: the route's \<open>limit + offset\<close>
  yields \<open>2^53\<close> there. A \<open>LIMIT\<close> of \<open>2^63\<close> makes the query fail.
\<close>

lemma num_add_rounds:
  "num_add (Some 9007199254740992) (Some 1) = Some 9007199254740992"
  by code_simp

lemma bind_bigint_out_of_range:
  "bind_bigint E (Some 9223372036854775808) = Inl storage_error"
  by (simp add: bind_bigint_def)

lemma view_row_isbn: "book_row.isbn13 (view_row d b) = book_row.isbn13 b"
  by (simp add: view_row_def book_row.defs row.defs)

lemma dune_groups:
  "group_order sample_engine (book_view dune_db (Books dune_db)) =
     [view_row dune_db (sample_book 1 ''Dune'' 4), view_row dune_db (sample_book 2 ''Dune'' 3)]"
  by (simp add: sample_engine_def book_view_def dune_books dune_authors view_row_isbn)

text \<open>
  C9. The resolved limit is 16 when the raw limit is absent (\<open>undefined\<close> or
  \<open>null\<close>), not accepted by \<open>isNumberProvided\<close>, not a number, or \<open>\<le> 0\<close>,
  and the raw value otherwise: the number itself for a JSON number, \<open>Number(s)\<close> for a
  string. The resolved offset is 0 under the same conditions with \<open>< 0\<close> in place of
  \<open>\<le> 0\<close>, and the raw value otherwise, 0 included. Whenever the route replies, the
  pagination block of the reply carries the resolved limit and offset and
  \<open>nextPage = limit + offset\<close>, the sum the program computes, which does not refer
  to the number of records. The route does reply when the resolved limit and offset are
  whole numbers \<open>n\<close> and \<open>k\<close> up to \<open>2^53\<close>, with the \<open>n\<close> groups that
  follow the first \<open>k\<close> in the order the engine returns them, and the sum is exactly
  \<open>n + k\<close> when that is at most \<open>2^53\<close>.
\<close>

theorem pagination_defaults_and_cursor:
  assumes "response w = None"
  shows "limit_of V Undefined = Some 16 \<and> limit_of V Null = Some 16
       \<and> limit_of V (Num x) = (if isNumberProvided V (Num x) \<and> 0 < x then Some x else Some 16)
       \<and> limit_of V (Str s) =
           (if isNumberProvided V (Str s) \<and> (\<exists>y. Number V s = Some y \<and> 0 < y) then Number V s
            else Some 16)
       \<and> offset_of V Undefined = Some 0 \<and> offset_of V Null = Some 0
       \<and> offset_of V (Num x) = (if isNumberProvided V (Num x) \<and> 0 \<le> x then Some x else Some 0)
       \<and> offset_of V (Str s) =
           (if isNumberProvided V (Str s) \<and> (\<exists>y. Number V s = Some y \<and> 0 \<le> y) then Number V s
            else Some 0)
       \<and> (response (pagination_offset V E rawLimit rawOffset w) = None
          \<or> (\<exists>rows. response (pagination_offset V E rawLimit rawOffset w) =
                Some \<lparr>status = 200,
                      body = Page rows
                        \<lparr>totalRecords = Some (binary64 (of_nat (length (Books (db w))))),
                         limit = limit_of V rawLimit, offset = offset_of V rawOffset,
                         nextPage = num_add (limit_of V rawLimit) (offset_of V rawOffset)\<rparr>\<rparr>))
       \<and> (limit_of V rawLimit = Some (of_nat n) \<and> offset_of V rawOffset = Some (of_nat k)
           \<and> n \<le> 2 ^ 53 \<and> k \<le> 2 ^ 53 \<longrightarrow>
            response (pagination_offset V E rawLimit rawOffset w) =
              Some \<lparr>status = 200,
                    body = Page (map toBook (take n (drop k
                               (group_order E (book_view (db w) (Books (db w)))))))
                      \<lparr>totalRecords = Some (binary64 (of_nat (length (Books (db w))))),
                       limit = Some (of_nat n), offset = Some (of_nat k),
                       nextPage = Some (binary64 (of_nat n + of_nat k))\<rparr>\<rparr>
            \<and> (n + k \<le> 2 ^ 53 \<longrightarrow> binary64 (of_nat n + of_nat k) = of_nat n + of_nat k))"
proof -
  have a: "response (pagination_offset V E rawLimit rawOffset w) = None
          \<or> (\<exists>rows. response (pagination_offset V E rawLimit rawOffset w) =
                Some \<lparr>status = 200,
                      body = Page rows
                        \<lparr>totalRecords = Some (binary64 (of_nat (length (Books (db w))))),
                         limit = limit_of V rawLimit, offset = offset_of V rawOffset,
                         nextPage = num_add (limit_of V rawLimit) (offset_of V rawOffset)\<rparr>\<rparr>)"
    unfolding pagination_reply [OF assms] by (auto split: sum.splits)
  have b: "response (pagination_offset V E rawLimit rawOffset w) =
              Some \<lparr>status = 200,
                    body = Page (map toBook (take n (drop k
                               (group_order E (book_view (db w) (Books (db w)))))))
                      \<lparr>totalRecords = Some (binary64 (of_nat (length (Books (db w))))),
                       limit = Some (of_nat n), offset = Some (of_nat k),
                       nextPage = Some (binary64 (of_nat n + of_nat k))\<rparr>\<rparr>"
    if "limit_of V rawLimit = Some (of_nat n)" "offset_of V rawOffset = Some (of_nat k)"
      "n \<le> 2 ^ 53" "k \<le> 2 ^ 53"
    unfolding pagination_reply [OF assms] using that
    by (simp add: select_page_def bind_bigint_of_nat)
  have c: "binary64 (of_nat n + of_nat k) = of_nat n + of_nat k" if "n + k \<le> 2 ^ 53"
    using binary64_of_nat [OF that] by simp
  show ?thesis
    by (intro conjI limit_of_values offset_of_values a) (use b c in blast)
qed

theorem pagination_defaults_and_cursor_witness:
  "limit_of sample_env (Num 0) = Some 16 \<and> offset_of sample_env (Num (- 5)) = Some 0
   \<and> response (pagination_offset sample_env sample_engine (Num 0) (Num (- 5)) (fresh dune_db)) =
       Some \<lparr>status = 200,
             body = Page [toBook (view_row dune_db (sample_book 1 ''Dune'' 4)),
                          toBook (view_row dune_db (sample_book 2 ''Dune'' 3))]
                      \<lparr>totalRecords = Some 3, limit = Some 16, offset = Some 0,
                       nextPage = Some 16\<rparr>\<rparr>
   \<and> limit_of sample_env (Num 2) = Some 2 \<and> offset_of sample_env (Str ''10'') = Some 10
   \<and> response (pagination_offset sample_env sample_engine (Num 2) (Str ''10'') (fresh dune_db)) =
       Some \<lparr>status = 200,
             body = Page [] \<lparr>totalRecords = Some 3, limit = Some 2, offset = Some 10,
                             nextPage = Some 12\<rparr>\<rparr>"
proof -
  have f: "response (fresh dune_db) = None"
    by (simp add: fresh_def)
  have d: "db (fresh dune_db) = dune_db"
    by (simp add: fresh_def)
  have l1: "limit_of sample_env (Num 0) = Some (of_nat 16)"
    by (simp add: limit_of_def sample_env_def num_gt_def)
  have o1: "offset_of sample_env (Num (- 5)) = Some (of_nat 0)"
    by (simp add: offset_of_def sample_env_def num_ge_def)
  have l2: "limit_of sample_env (Num 2) = Some (of_nat 2)"
    by (simp add: limit_of_def sample_env_def num_gt_def)
  have o2: "offset_of sample_env (Str ''10'') = Some (of_nat 10)"
    by (simp add: offset_of_def sample_defs num_ge_def)
  have b: "(16::nat) \<le> 2 ^ 53" "(0::nat) \<le> 2 ^ 53" "(2::nat) \<le> 2 ^ 53" "(10::nat) \<le> 2 ^ 53"
    "(16::nat) + 0 \<le> 2 ^ 53" "(2::nat) + 10 \<le> 2 ^ 53"
    by simp_all
  have n: "binary64 (of_nat (length (Books dune_db))) = 3"
    using binary64_of_nat [of 3] by (simp add: dune_books)
  note t = pagination_defaults_and_cursor [OF f, THEN conjunct2, THEN conjunct2, THEN conjunct2,
      THEN conjunct2, THEN conjunct2, THEN conjunct2, THEN conjunct2, THEN conjunct2,
      THEN conjunct2, rule_format, unfolded d]
  have r1: "response (pagination_offset sample_env sample_engine (Num 0) (Num (- 5)) (fresh dune_db)) =
       Some \<lparr>status = 200,
             body = Page [toBook (view_row dune_db (sample_book 1 ''Dune'' 4)),
                          toBook (view_row dune_db (sample_book 2 ''Dune'' 3))]
                      \<lparr>totalRecords = Some 3, limit = Some 16, offset = Some 0,
                       nextPage = Some 16\<rparr>\<rparr>"
    using t [of sample_env "Num 0" 16 "Num (- 5)" 0 sample_engine] l1 o1 b
    by (simp add: dune_groups n)
  have r2: "response (pagination_offset sample_env sample_engine (Num 2) (Str ''10'') (fresh dune_db)) =
       Some \<lparr>status = 200,
             body = Page [] \<lparr>totalRecords = Some 3, limit = Some 2, offset = Some 10,
                             nextPage = Some 12\<rparr>\<rparr>"
    using t [of sample_env "Num 2" 2 "Str ''10''" 10 sample_engine] l2 o2 b
    by (simp add: dune_groups n)
  show ?thesis
    using r1 r2 l1 o1 l2 o2 by simp
qed


end
